theory Spec2Isabelle
  imports Main
begin

section \<open>The IR builder of purellvmpy (core/builder.py)\<close>

text \<open>
  The builder is a cursor (a current block and an insertion index) over basic blocks that
  live in a heap of block objects. Every method of \<open>IRBuilder\<close> is a function from the
  state before the call to the outcome of the call and the state after it: the outcome is
  \<open>Inl e\<close> when the Python raises \<open>e\<close> and \<open>Inr v\<close> when it returns \<open>v\<close>, and the state
  is returned in both cases, so that what a failed call leaves behind is part of the model.

  An instruction is an object: two instructions built by two calls are two objects even when
  every field of one equals the field of the other. Each instruction therefore carries the
  identity it was given when it was made, a number that the state counts up.
\<close>

subsection \<open>Types and values\<close>

text \<open>
  Modelled from the spec: the module \<open>lltypes\<close> is not part of the sources. A type is an
  opaque descriptor compared structurally; the builder itself only constructs
  \<open>IntType(32)\<close>.
\<close>

datatype lltype = IntType nat | PointerType lltype | NamedType string

text \<open>
  Modelled from the spec: the classes of \<open>llvalues\<close> are not part of the sources. A
  value is a constant or an instruction (a terminator is an instruction). A constant has no
  identity beyond its type and payload. An instruction records its identity, the class that
  was instantiated and the arguments of the constructor call, in the order in which
  builder.py passes them; the first of these arguments is its parent function. A block is
  referred to by its address in the heap.
\<close>

datatype llvalue =
    Constant lltype int
  | Instruction nat nat "lltype option" string "llvalue list" string
  | CastInstr nat nat string llvalue lltype string
  | ICMPInstr nat nat string llvalue llvalue string
  | FCMPInstr nat nat string llvalue llvalue string
  | AllocaInstr nat nat lltype "llvalue option" string
  | LoadInstr nat nat llvalue string
  | StoreInstr nat nat llvalue llvalue
  | Terminator nat nat string "operand list"
and operand = ValueOp llvalue | BlockOp nat

text \<open>
  Modelled from the spec: the attribute \<open>type\<close> of a value, which the classes of
  \<open>llvalues\<close> compute. A constant and a plain instruction carry the type they were given, a
  cast has its target type, a comparison a 1-bit type, an alloca the pointer to its type, a
  load the pointee of its pointer's type; a store and a terminator have no result type.
\<close>

fun value_type :: "llvalue \<Rightarrow> lltype option" where
  "value_type (Constant t v) = Some t"
| "value_type (Instruction i f t opname ops name) = t"
| "value_type (CastInstr i f opname v t name) = Some t"
| "value_type (ICMPInstr i f op lhs rhs name) = Some (IntType 1)"
| "value_type (FCMPInstr i f op lhs rhs name) = Some (IntType 1)"
| "value_type (AllocaInstr i f t c name) = Some (PointerType t)"
| "value_type (LoadInstr i f p name) =
     (case value_type p of Some (PointerType t) \<Rightarrow> Some t | _ \<Rightarrow> None)"
| "value_type (StoreInstr i f v p) = None"
| "value_type (Terminator i f opname ops) = None"

text \<open>
  The identity of a value: the number an instruction was given when it was made; a constant
  has none. Two values are the same object when they are instructions of the same identity,
  or constants that are equal.
\<close>

fun ident :: "llvalue \<Rightarrow> nat option" where
  "ident (Constant t v) = None"
| "ident (Instruction i f t opname ops name) = Some i"
| "ident (CastInstr i f opname v t name) = Some i"
| "ident (ICMPInstr i f op lhs rhs name) = Some i"
| "ident (FCMPInstr i f op lhs rhs name) = Some i"
| "ident (AllocaInstr i f t c name) = Some i"
| "ident (LoadInstr i f p name) = Some i"
| "ident (StoreInstr i f v p) = Some i"
| "ident (Terminator i f opname ops) = Some i"

definition same_object :: "llvalue \<Rightarrow> llvalue \<Rightarrow> bool" where
  "same_object x y =
     (case ident x of
        Some i \<Rightarrow> ident y = Some i
      | None \<Rightarrow> ident y = None \<and> x = y)"

subsection \<open>Blocks, the builder and the state\<close>

text \<open>
  Modelled from the spec: the block class is not part of the sources. A block has a parent
  function, an ordered sequence of instructions and a terminator slot that is empty until the
  block is closed.
\<close>

record BasicBlock =
  parent :: nat
  instructions :: "llvalue list"
  terminator :: "llvalue option"

text \<open>
  Modelled from the spec: the property \<open>is_terminated\<close> of a block, which holds once
  the terminator slot is filled.
\<close>

definition is_terminated :: "BasicBlock \<Rightarrow> bool" where
  "is_terminated b = (terminator b \<noteq> None)"

text \<open>
  Modelled from the spec: \<open>instructions.insert(i, x)\<close> inserts \<open>x\<close> at index \<open>i\<close> of the
  sequence. An index outside \<open>[0, len]\<close> is clamped as Python's list does.
\<close>

definition list_insert :: "int \<Rightarrow> 'a \<Rightarrow> 'a list \<Rightarrow> 'a list" where
  "list_insert i x xs =
     (let n = int (length xs);
          j = (if i < 0 then max 0 (i + n) else min i n)
      in take (nat j) xs @ x # drop (nat j) xs)"

text \<open>
  Modelled from the spec: \<open>instructions.find(x)\<close> is the index of the object \<open>x\<close> in the
  sequence (of its first occurrence, should it occur twice), or a "not found" sentinel. The
  objects of the sequence are compared with \<open>x\<close> by identity, not field by field. The spec
  does not give the sentinel, so it is the parameter \<open>nf\<close> (Python's \<open>str.find\<close> has
  \<open>-1\<close>).
\<close>

fun index_of :: "llvalue \<Rightarrow> llvalue list \<Rightarrow> nat option" where
  "index_of x [] = None"
| "index_of x (y # ys) =
     (if same_object x y then Some 0 else map_option Suc (index_of x ys))"

definition find_instr :: "int \<Rightarrow> llvalue \<Rightarrow> llvalue list \<Rightarrow> int" where
  "find_instr nf x xs = (case index_of x xs of None \<Rightarrow> nf | Some i \<Rightarrow> int i)"

datatype error =
    AssertionError string
  | KeyError string
  | AttributeError string

record IRBuilder =
  block :: "nat option"
  anchor :: int

text \<open>
  The state: the builder, the heap of blocks, and \<open>next_id\<close>, the identity that the next
  instruction made will have.
\<close>

record state =
  self :: IRBuilder
  heap :: "nat \<Rightarrow> BasicBlock"
  next_id :: nat

type_synonym 'a outcome = "(error + 'a) \<times> state"

definition CMP_MAP :: "string \<rightharpoonup> string" where
  "CMP_MAP = [''>'' \<mapsto> ''gt'', ''<'' \<mapsto> ''lt'', ''=='' \<mapsto> ''eq'',
              ''!='' \<mapsto> ''ne'', ''>='' \<mapsto> ''ge'', ''<='' \<mapsto> ''le'']"

subsection \<open>Positioning\<close>

text \<open>A new builder, on block \<open>b\<close> if one is given; the heap is as it was.\<close>

definition IRBuilder_init :: "nat option \<Rightarrow> state \<Rightarrow> state" where
  "IRBuilder_init b s =
     s\<lparr>self := \<lparr>block = b,
              anchor = (case b of
                          Some a \<Rightarrow> int (length (instructions (heap s a)))
                        | None \<Rightarrow> 0)\<rparr>\<rparr>"

text \<open>The property \<open>function\<close>: the parent of the current block; there is none without a block.\<close>

definition builder_function :: "state \<Rightarrow> error + nat" where
  "builder_function s =
     (case block (self s) of
        None \<Rightarrow> Inl (AttributeError ''parent'')
      | Some b \<Rightarrow> Inr (parent (heap s b)))"

definition position_before :: "int \<Rightarrow> llvalue \<Rightarrow> state \<Rightarrow> unit outcome" where
  "position_before nf instr s =
     (case block (self s) of
        None \<Rightarrow> (Inl (AttributeError ''instructions''), s)
      | Some b \<Rightarrow>
          (Inr (), s\<lparr>self := (self s)\<lparr>anchor :=
                      max 0 (find_instr nf instr (instructions (heap s b)) - 1)\<rparr>\<rparr>))"

definition position_after :: "int \<Rightarrow> llvalue \<Rightarrow> state \<Rightarrow> unit outcome" where
  "position_after nf instr s =
     (case block (self s) of
        None \<Rightarrow> (Inl (AttributeError ''instructions''), s)
      | Some b \<Rightarrow>
          (Inr (), s\<lparr>self := (self s)\<lparr>anchor :=
                      min (find_instr nf instr (instructions (heap s b)) + 1)
                          (int (length (instructions (heap s b))))\<rparr>\<rparr>))"

definition position_at_start :: "nat \<Rightarrow> state \<Rightarrow> state" where
  "position_at_start b s = s\<lparr>self := \<lparr>block = Some b, anchor = 0\<rparr>\<rparr>"

definition position_at_end :: "nat \<Rightarrow> state \<Rightarrow> state" where
  "position_at_end b s =
     s\<lparr>self := \<lparr>block = Some b, anchor = int (length (instructions (heap s b)))\<rparr>\<rparr>"

definition builder_constant :: "lltype \<Rightarrow> int \<Rightarrow> llvalue" where
  "builder_constant typ val = Constant typ val"

subsection \<open>The two mutators of a block\<close>

definition insert_instr :: "llvalue \<Rightarrow> state \<Rightarrow> unit outcome" where
  "insert_instr instr s =
     (case block (self s) of
        None \<Rightarrow> (Inl (AttributeError ''instructions''), s)
      | Some b \<Rightarrow>
          (Inr (),
           s\<lparr>self := (self s)\<lparr>anchor := anchor (self s) + 1\<rparr>,
             heap := (heap s)(b := (heap s b)\<lparr>instructions :=
                      list_insert (anchor (self s)) instr (instructions (heap s b))\<rparr>)\<rparr>))"

definition set_terminator :: "llvalue \<Rightarrow> state \<Rightarrow> llvalue outcome" where
  "set_terminator t s =
     (case block (self s) of
        None \<Rightarrow> (Inl (AttributeError ''is_terminated''), s)
      | Some b \<Rightarrow>
          if is_terminated (heap s b) then (Inl (AssertionError ''''), s)
          else (Inr t, s\<lparr>heap := (heap s)(b := (heap s b)\<lparr>terminator := Some t\<rparr>),
                         next_id := Suc (next_id s)\<rparr>))"

text \<open>
  A constructor builds its instruction, inserts it and returns it. The new object has the
  identity \<open>next_id\<close>, and the identity is used up once the object is kept: in \<open>emit\<close> for
  an instruction, in \<open>set_terminator\<close> for a terminator. An object built by a call that
  then fails is unreachable, and the counter stays where it was.
\<close>

definition emit :: "llvalue \<Rightarrow> state \<Rightarrow> llvalue outcome" where
  "emit instr s =
     (case insert_instr instr s of
        (Inl e, s') \<Rightarrow> (Inl e, s')
      | (Inr u, s') \<Rightarrow> (Inr instr, s'\<lparr>next_id := Suc (next_id s')\<rparr>))"

subsection \<open>Arithmetic\<close>

definition binop :: "string \<Rightarrow> llvalue \<Rightarrow> llvalue \<Rightarrow> string \<Rightarrow> state \<Rightarrow> llvalue outcome" where
  "binop opname lhs rhs name s =
     (if value_type lhs \<noteq> value_type rhs
      then (Inl (AssertionError ''Operands must be the same type''), s)
      else case builder_function s of
             Inl e \<Rightarrow> (Inl e, s)
           | Inr f \<Rightarrow>
               emit (Instruction (next_id s) f (value_type lhs) opname [lhs, rhs] name) s)"

definition add :: "llvalue \<Rightarrow> llvalue \<Rightarrow> string \<Rightarrow> state \<Rightarrow> llvalue outcome" where
  "add = binop ''add''"

definition sub :: "llvalue \<Rightarrow> llvalue \<Rightarrow> string \<Rightarrow> state \<Rightarrow> llvalue outcome" where
  "sub = binop ''sub''"

definition mul :: "llvalue \<Rightarrow> llvalue \<Rightarrow> string \<Rightarrow> state \<Rightarrow> llvalue outcome" where
  "mul = binop ''mul''"

definition udiv :: "llvalue \<Rightarrow> llvalue \<Rightarrow> string \<Rightarrow> state \<Rightarrow> llvalue outcome" where
  "udiv = binop ''udiv''"

definition sdiv :: "llvalue \<Rightarrow> llvalue \<Rightarrow> string \<Rightarrow> state \<Rightarrow> llvalue outcome" where
  "sdiv = binop ''sdiv''"

subsection \<open>Comparisons\<close>

definition icmp_signed :: "string \<Rightarrow> llvalue \<Rightarrow> llvalue \<Rightarrow> string \<Rightarrow> state \<Rightarrow> llvalue outcome" where
  "icmp_signed cmpop lhs rhs name s =
     (case CMP_MAP cmpop of
        None \<Rightarrow> (Inl (KeyError cmpop), s)
      | Some base \<Rightarrow>
          (let op = (if cmpop \<notin> {''=='', ''!=''} then ''s'' @ base else base)
           in (case builder_function s of
                 Inl e \<Rightarrow> (Inl e, s)
               | Inr f \<Rightarrow> emit (ICMPInstr (next_id s) f op lhs rhs name) s)))"

definition icmp_unsigned :: "string \<Rightarrow> llvalue \<Rightarrow> llvalue \<Rightarrow> string \<Rightarrow> state \<Rightarrow> llvalue outcome" where
  "icmp_unsigned cmpop lhs rhs name s =
     (case CMP_MAP cmpop of
        None \<Rightarrow> (Inl (KeyError cmpop), s)
      | Some base \<Rightarrow>
          (let op = (if cmpop \<notin> {''=='', ''!=''} then ''u'' @ base else base)
           in (case builder_function s of
                 Inl e \<Rightarrow> (Inl e, s)
               | Inr f \<Rightarrow> emit (ICMPInstr (next_id s) f op lhs rhs name) s)))"

definition fcmp_ordered :: "string \<Rightarrow> llvalue \<Rightarrow> llvalue \<Rightarrow> string \<Rightarrow> state \<Rightarrow> llvalue outcome" where
  "fcmp_ordered cmpop lhs rhs name s =
     (let op = (case CMP_MAP cmpop of Some base \<Rightarrow> ''o'' @ base | None \<Rightarrow> cmpop)
      in case builder_function s of
           Inl e \<Rightarrow> (Inl e, s)
         | Inr f \<Rightarrow> emit (FCMPInstr (next_id s) f op lhs rhs name) s)"

definition fcmp_unordered :: "string \<Rightarrow> llvalue \<Rightarrow> llvalue \<Rightarrow> string \<Rightarrow> state \<Rightarrow> llvalue outcome" where
  "fcmp_unordered cmpop lhs rhs name s =
     (let op = (case CMP_MAP cmpop of Some base \<Rightarrow> ''u'' @ base | None \<Rightarrow> cmpop)
      in case builder_function s of
           Inl e \<Rightarrow> (Inl e, s)
         | Inr f \<Rightarrow> emit (FCMPInstr (next_id s) f op lhs rhs name) s)"

subsection \<open>Casts\<close>

definition castop :: "string \<Rightarrow> llvalue \<Rightarrow> lltype \<Rightarrow> string \<Rightarrow> state \<Rightarrow> llvalue outcome" where
  "castop opname val typ name s =
     (case builder_function s of
        Inl e \<Rightarrow> (Inl e, s)
      | Inr f \<Rightarrow> emit (CastInstr (next_id s) f opname val typ name) s)"

definition trunc :: "llvalue \<Rightarrow> lltype \<Rightarrow> string \<Rightarrow> state \<Rightarrow> llvalue outcome" where
  "trunc = castop ''trunc''"

definition zext :: "llvalue \<Rightarrow> lltype \<Rightarrow> string \<Rightarrow> state \<Rightarrow> llvalue outcome" where
  "zext = castop ''zext''"

definition sext :: "llvalue \<Rightarrow> lltype \<Rightarrow> string \<Rightarrow> state \<Rightarrow> llvalue outcome" where
  "sext = castop ''sext''"

definition fptrunc :: "llvalue \<Rightarrow> lltype \<Rightarrow> string \<Rightarrow> state \<Rightarrow> llvalue outcome" where
  "fptrunc = castop ''fptrunc''"

definition fpext :: "llvalue \<Rightarrow> lltype \<Rightarrow> string \<Rightarrow> state \<Rightarrow> llvalue outcome" where
  "fpext = castop ''fpext''"

definition bitcast :: "llvalue \<Rightarrow> lltype \<Rightarrow> string \<Rightarrow> state \<Rightarrow> llvalue outcome" where
  "bitcast = castop ''bitcast''"

definition fptoui :: "llvalue \<Rightarrow> lltype \<Rightarrow> string \<Rightarrow> state \<Rightarrow> llvalue outcome" where
  "fptoui = castop ''fptoui''"

definition uitofp :: "llvalue \<Rightarrow> lltype \<Rightarrow> string \<Rightarrow> state \<Rightarrow> llvalue outcome" where
  "uitofp = castop ''uitofp''"

definition fptosi :: "llvalue \<Rightarrow> lltype \<Rightarrow> string \<Rightarrow> state \<Rightarrow> llvalue outcome" where
  "fptosi = castop ''fptosi''"

definition sitofp :: "llvalue \<Rightarrow> lltype \<Rightarrow> string \<Rightarrow> state \<Rightarrow> llvalue outcome" where
  "sitofp = castop ''sitofp''"

subsection \<open>Memory\<close>

text \<open>
  The argument \<open>count\<close> of \<open>alloca\<close> is \<open>None\<close>, a Python number or a value. What
  \<open>count > 0\<close> gives for a value is decided by the class \<open>Value\<close>, which is not part of the
  sources: it is the parameter \<open>value_gt0\<close>, which may raise.
\<close>

datatype count_arg = CountNone | CountInt int | CountValue llvalue

definition alloca ::
  "(llvalue \<Rightarrow> error + bool) \<Rightarrow> lltype \<Rightarrow> count_arg \<Rightarrow> string \<Rightarrow> state \<Rightarrow> llvalue outcome" where
  "alloca value_gt0 typ count name s =
     (case (case count of
              CountNone \<Rightarrow> Inr True
            | CountInt n \<Rightarrow> Inr (n > 0)
            | CountValue v \<Rightarrow> value_gt0 v) of
        Inl e \<Rightarrow> (Inl e, s)
      | Inr ok \<Rightarrow>
          if \<not> ok then (Inl (AssertionError ''''), s)
          else
            (let count' = (case count of
                             CountNone \<Rightarrow> None
                           | CountInt n \<Rightarrow> Some (Constant (IntType 32) n)
                           | CountValue v \<Rightarrow> Some v)
             in (case builder_function s of
                   Inl e \<Rightarrow> (Inl e, s)
                 | Inr f \<Rightarrow> emit (AllocaInstr (next_id s) f typ count' name) s)))"

definition load :: "llvalue \<Rightarrow> string \<Rightarrow> state \<Rightarrow> llvalue outcome" where
  "load ptr name s =
     (case builder_function s of
        Inl e \<Rightarrow> (Inl e, s)
      | Inr f \<Rightarrow> emit (LoadInstr (next_id s) f ptr name) s)"

definition store :: "llvalue \<Rightarrow> llvalue \<Rightarrow> state \<Rightarrow> llvalue outcome" where
  "store val ptr s =
     (case builder_function s of
        Inl e \<Rightarrow> (Inl e, s)
      | Inr f \<Rightarrow> emit (StoreInstr (next_id s) f val ptr) s)"

subsection \<open>Terminators\<close>

definition jump :: "nat \<Rightarrow> state \<Rightarrow> llvalue outcome" where
  "jump target s =
     (case builder_function s of
        Inl e \<Rightarrow> (Inl e, s)
      | Inr f \<Rightarrow> set_terminator (Terminator (next_id s) f ''br'' [BlockOp target]) s)"

definition branch :: "llvalue \<Rightarrow> nat \<Rightarrow> nat \<Rightarrow> state \<Rightarrow> llvalue outcome" where
  "branch cond truebr falsebr s =
     (case builder_function s of
        Inl e \<Rightarrow> (Inl e, s)
      | Inr f \<Rightarrow>
          set_terminator (Terminator (next_id s) f ''br''
            [ValueOp cond, BlockOp truebr, BlockOp falsebr]) s)"

definition ret_void :: "state \<Rightarrow> llvalue outcome" where
  "ret_void s =
     (case builder_function s of
        Inl e \<Rightarrow> (Inl e, s)
      | Inr f \<Rightarrow> set_terminator (Terminator (next_id s) f ''ret void'' []) s)"

definition ret :: "llvalue \<Rightarrow> state \<Rightarrow> llvalue outcome" where
  "ret v s =
     (case builder_function s of
        Inl e \<Rightarrow> (Inl e, s)
      | Inr f \<Rightarrow> set_terminator (Terminator (next_id s) f ''ret'' [ValueOp v]) s)"

subsection \<open>Constructor calls as data\<close>

text \<open>
  The methods that construct an instruction, as a type of calls, so that a statement can
  range over every one of them. \<open>run_call\<close> makes the call.
\<close>

datatype call =
    Add llvalue llvalue string
  | Sub llvalue llvalue string
  | Mul llvalue llvalue string
  | Udiv llvalue llvalue string
  | Sdiv llvalue llvalue string
  | Icmp_signed string llvalue llvalue string
  | Icmp_unsigned string llvalue llvalue string
  | Fcmp_ordered string llvalue llvalue string
  | Fcmp_unordered string llvalue llvalue string
  | Trunc llvalue lltype string
  | Zext llvalue lltype string
  | Sext llvalue lltype string
  | Fptrunc llvalue lltype string
  | Fpext llvalue lltype string
  | Bitcast llvalue lltype string
  | Fptoui llvalue lltype string
  | Uitofp llvalue lltype string
  | Fptosi llvalue lltype string
  | Sitofp llvalue lltype string
  | Alloca lltype count_arg string
  | Load llvalue string
  | Store llvalue llvalue

fun run_call :: "(llvalue \<Rightarrow> error + bool) \<Rightarrow> call \<Rightarrow> state \<Rightarrow> llvalue outcome" where
  "run_call g (Add lhs rhs name) s = add lhs rhs name s"
| "run_call g (Sub lhs rhs name) s = sub lhs rhs name s"
| "run_call g (Mul lhs rhs name) s = mul lhs rhs name s"
| "run_call g (Udiv lhs rhs name) s = udiv lhs rhs name s"
| "run_call g (Sdiv lhs rhs name) s = sdiv lhs rhs name s"
| "run_call g (Icmp_signed cmpop lhs rhs name) s = icmp_signed cmpop lhs rhs name s"
| "run_call g (Icmp_unsigned cmpop lhs rhs name) s = icmp_unsigned cmpop lhs rhs name s"
| "run_call g (Fcmp_ordered cmpop lhs rhs name) s = fcmp_ordered cmpop lhs rhs name s"
| "run_call g (Fcmp_unordered cmpop lhs rhs name) s = fcmp_unordered cmpop lhs rhs name s"
| "run_call g (Trunc v typ name) s = trunc v typ name s"
| "run_call g (Zext v typ name) s = zext v typ name s"
| "run_call g (Sext v typ name) s = sext v typ name s"
| "run_call g (Fptrunc v typ name) s = fptrunc v typ name s"
| "run_call g (Fpext v typ name) s = fpext v typ name s"
| "run_call g (Bitcast v typ name) s = bitcast v typ name s"
| "run_call g (Fptoui v typ name) s = fptoui v typ name s"
| "run_call g (Uitofp v typ name) s = uitofp v typ name s"
| "run_call g (Fptosi v typ name) s = fptosi v typ name s"
| "run_call g (Sitofp v typ name) s = sitofp v typ name s"
| "run_call g (Alloca typ count name) s = alloca g typ count name s"
| "run_call g (Load ptr name) s = load ptr name s"
| "run_call g (Store val ptr) s = store val ptr s"

text \<open>
  The checks that a constructor makes on its arguments before it builds its instruction: the
  assert of \<open>_binop\<close> on the operand types, the lookup of \<open>cmpop\<close> in \<open>_CMP_MAP\<close> by
  the integer comparisons, the assert of \<open>alloca\<close> on its count. The floating-point
  comparisons, the casts, \<open>load\<close> and \<open>store\<close> make none.
\<close>

fun accepts :: "(llvalue \<Rightarrow> error + bool) \<Rightarrow> call \<Rightarrow> bool" where
  "accepts g (Add lhs rhs name) = (value_type lhs = value_type rhs)"
| "accepts g (Sub lhs rhs name) = (value_type lhs = value_type rhs)"
| "accepts g (Mul lhs rhs name) = (value_type lhs = value_type rhs)"
| "accepts g (Udiv lhs rhs name) = (value_type lhs = value_type rhs)"
| "accepts g (Sdiv lhs rhs name) = (value_type lhs = value_type rhs)"
| "accepts g (Icmp_signed cmpop lhs rhs name) = (CMP_MAP cmpop \<noteq> None)"
| "accepts g (Icmp_unsigned cmpop lhs rhs name) = (CMP_MAP cmpop \<noteq> None)"
| "accepts g (Fcmp_ordered cmpop lhs rhs name) = True"
| "accepts g (Fcmp_unordered cmpop lhs rhs name) = True"
| "accepts g (Trunc v typ name) = True"
| "accepts g (Zext v typ name) = True"
| "accepts g (Sext v typ name) = True"
| "accepts g (Fptrunc v typ name) = True"
| "accepts g (Fpext v typ name) = True"
| "accepts g (Bitcast v typ name) = True"
| "accepts g (Fptoui v typ name) = True"
| "accepts g (Uitofp v typ name) = True"
| "accepts g (Fptosi v typ name) = True"
| "accepts g (Sitofp v typ name) = True"
| "accepts g (Alloca typ count name) =
     (case count of
        CountNone \<Rightarrow> True
      | CountInt n \<Rightarrow> 0 < n
      | CountValue v \<Rightarrow> g v = Inr True)"
| "accepts g (Load ptr name) = True"
| "accepts g (Store val ptr) = True"

subsection \<open>Blocks filled by the builder\<close>

text \<open>
  What holds of the instruction sequence of a block that only the builder has filled: its
  members are instructions made earlier (their identities are below \<open>next_id\<close>) and no
  object occurs in it twice.
\<close>

definition objects_ok :: "nat \<Rightarrow> llvalue list \<Rightarrow> bool" where
  "objects_ok n xs =
     (distinct (map ident xs) \<and>
      list_all (\<lambda>x. case ident x of Some i \<Rightarrow> i < n | None \<Rightarrow> False) xs)"

subsection \<open>Example states\<close>

text \<open>
  A heap of empty, open blocks of function 0 in which no instruction has been made yet, a
  builder made on block 0 of it, and some operands.
\<close>

definition ex_heap :: "nat \<Rightarrow> BasicBlock" where
  "ex_heap = (\<lambda>a. \<lparr>parent = 0, instructions = [], terminator = None\<rparr>)"

definition ex_state :: state where
  "ex_state =
     IRBuilder_init (Some 0) \<lparr>self = \<lparr>block = None, anchor = 0\<rparr>, heap = ex_heap, next_id = 0\<rparr>"

definition ex_i32 :: "int \<Rightarrow> llvalue" where
  "ex_i32 n = Constant (IntType 32) n"

definition ex_i64 :: "int \<Rightarrow> llvalue" where
  "ex_i64 n = Constant (IntType 64) n"

definition ex_gt0 :: "llvalue \<Rightarrow> error + bool" where
  "ex_gt0 v = Inr True"

text \<open>Block 0 after \<open>jump\<close> to block 1: closed.\<close>

definition ex_closed :: state where
  "ex_closed = snd (jump 1 ex_state)"

text \<open>
  A heap whose block 0 holds three instructions and whose block 1 holds one, with a builder
  made on block 0 (at its end).
\<close>

definition ex_alloca :: "nat \<Rightarrow> string \<Rightarrow> llvalue" where
  "ex_alloca i name = AllocaInstr i 0 (IntType 32) None name"

definition ex_heap2 :: "nat \<Rightarrow> BasicBlock" where
  "ex_heap2 = ex_heap
     (0 := \<lparr>parent = 0,
            instructions = [ex_alloca 0 ''a'', ex_alloca 1 ''b'', ex_alloca 2 ''c''],
            terminator = None\<rparr>,
      1 := \<lparr>parent = 0, instructions = [ex_alloca 3 ''d''], terminator = None\<rparr>)"

definition ex_state2 :: state where
  "ex_state2 =
     IRBuilder_init (Some 0) \<lparr>self = \<lparr>block = None, anchor = 0\<rparr>, heap = ex_heap2, next_id = 4\<rparr>"

text \<open>
  Block 0 after the same \<open>add\<close> has been called twice on the empty block: two instructions
  that agree in every field and are two objects.
\<close>

definition ex_twins :: state where
  "ex_twins =
     snd (add (ex_i32 1) (ex_i32 2) ''x'' (snd (add (ex_i32 1) (ex_i32 2) ''x'' ex_state)))"

definition ex_twin :: "nat \<Rightarrow> llvalue" where
  "ex_twin i = Instruction i 0 (Some (IntType 32)) ''add'' [ex_i32 1, ex_i32 2] ''x''"

text \<open>Three calls, and the states they lead through from the end of block 0.\<close>

definition ex_add :: call where
  "ex_add = Add (ex_i32 1) (ex_i32 2) ''x''"

definition ex_trunc :: call where
  "ex_trunc = Trunc (ex_i32 1) (IntType 8) ''c''"

definition ex_store :: call where
  "ex_store = Store (ex_i32 1) (ex_alloca 0 ''a'')"

definition ex_s1 :: state where
  "ex_s1 = snd (run_call ex_gt0 ex_add (position_at_end 0 (position_at_start 0 ex_state2)))"

definition ex_s2 :: state where
  "ex_s2 = snd (run_call ex_gt0 ex_trunc ex_s1)"

definition ex_s3 :: state where
  "ex_s3 = snd (run_call ex_gt0 ex_store ex_s2)"

section \<open>Properties\<close>

subsection \<open>Auxiliary facts\<close>

lemma CMP_MAP_table:
  "CMP_MAP ''>'' = Some ''gt''" "CMP_MAP ''<'' = Some ''lt''" "CMP_MAP ''=='' = Some ''eq''"
  "CMP_MAP ''!='' = Some ''ne''" "CMP_MAP ''>='' = Some ''ge''" "CMP_MAP ''<='' = Some ''le''"
  by (simp_all add: CMP_MAP_def)

lemma CMP_MAP_Some:
  "CMP_MAP c = Some b \<Longrightarrow>
   (c, b) \<in> {(''>'', ''gt''), (''<'', ''lt''), (''=='', ''eq''), (''!='', ''ne''),
             (''>='', ''ge''), (''<='', ''le'')}"
  by (simp add: CMP_MAP_def split: if_splits)

lemma CMP_MAP_None: "c \<notin> {''>'', ''<'', ''=='', ''!='', ''>='', ''<=''} \<Longrightarrow> CMP_MAP c = None"
  by (simp add: CMP_MAP_def)

lemma CMP_MAP_base:
  "CMP_MAP c = Some b \<Longrightarrow> (c \<in> {''=='', ''!=''}) = (b \<in> {''eq'', ''ne''})"
  by (drule CMP_MAP_Some) auto

lemma emit_ok:
  "block (self s) = Some b \<Longrightarrow>
   emit i s = (Inr i, s\<lparr>self := (self s)\<lparr>anchor := anchor (self s) + 1\<rparr>,
            heap := (heap s)(b := (heap s b)\<lparr>instructions :=
                     list_insert (anchor (self s)) i (instructions (heap s b))\<rparr>),
            next_id := Suc (next_id s)\<rparr>)"
  by (simp add: emit_def insert_instr_def)

lemma emit_no_block:
  "block (self s) = None \<Longrightarrow> emit i s = (Inl (AttributeError ''instructions''), s)"
  by (simp add: emit_def insert_instr_def)

lemma list_insert_in_range:
  "0 \<le> i \<Longrightarrow> i \<le> int (length xs) \<Longrightarrow>
   list_insert i x xs = take (nat i) xs @ x # drop (nat i) xs"
  by (simp add: list_insert_def Let_def min_def)

lemma list_insert_end: "list_insert (int (length xs)) x xs = xs @ [x]"
  by (simp add: list_insert_def Let_def)

lemma length_list_insert: "length (list_insert i x xs) = Suc (length xs)"
  by (simp add: list_insert_def Let_def)

text \<open>Lookup by identity.\<close>

lemma same_object_refl: "same_object x x"
  by (simp add: same_object_def split: option.splits)

lemma same_object_ident: "same_object x y \<Longrightarrow> ident x = ident y"
  by (auto simp: same_object_def split: option.splits)

lemma index_of_first:
  "i < length xs \<Longrightarrow> \<forall>j<i. \<not> same_object (xs ! i) (xs ! j) \<Longrightarrow>
   index_of (xs ! i) xs = Some i"
proof (induction xs arbitrary: i)
  case Nil
  then show ?case by simp
next
  case (Cons y ys)
  show ?case
  proof (cases i)
    case 0
    then show ?thesis by (simp add: same_object_refl)
  next
    case (Suc k)
    from Cons.prems(2) Suc have "\<not> same_object (ys ! k) y"
      by (metis nth_Cons_0 nth_Cons_Suc zero_less_Suc)
    moreover have "\<forall>j<k. \<not> same_object (ys ! k) (ys ! j)"
    proof (intro allI impI)
      fix j assume "j < k"
      then have "Suc j < i" using Suc by simp
      with Cons.prems(2) have "\<not> same_object ((y # ys) ! i) ((y # ys) ! Suc j)" by blast
      with Suc show "\<not> same_object (ys ! k) (ys ! j)" by simp
    qed
    moreover from Cons.prems(1) Suc have "k < length ys" by simp
    ultimately show ?thesis using Cons.IH [of k] Suc by simp
  qed
qed

lemma index_of_absent: "\<forall>y \<in> set xs. \<not> same_object x y \<Longrightarrow> index_of x xs = None"
  by (induction xs) auto

text \<open>
  In a block that only the builder has filled, no object occurs before itself; and a
  constructor call leaves every such block such a block.
\<close>

lemma objects_ok_Nil: "objects_ok n []"
  by (simp add: objects_ok_def)

lemma objects_ok_first:
  assumes "objects_ok n xs" and "i < length xs" and "j < i"
  shows "\<not> same_object (xs ! i) (xs ! j)"
proof
  assume "same_object (xs ! i) (xs ! j)"
  then have e: "ident (xs ! i) = ident (xs ! j)" by (rule same_object_ident)
  from assms(1) have "distinct (map ident xs)" by (simp add: objects_ok_def)
  then have "\<forall>i<length xs. \<forall>j<length xs. i \<noteq> j \<longrightarrow> ident (xs ! i) \<noteq> ident (xs ! j)"
    by (simp add: distinct_conv_nth)
  with assms(2,3) e show False by auto
qed

lemma objects_ok_mono: "objects_ok n xs \<Longrightarrow> n \<le> m \<Longrightarrow> objects_ok m xs"
  by (auto simp: objects_ok_def list_all_iff split: option.splits)

lemma objects_ok_middle:
  assumes "objects_ok n (ys @ zs)" and "ident v = Some n"
  shows "objects_ok (Suc n) (ys @ v # zs)"
proof -
  from assms(1) have b: "\<forall>y \<in> set ys \<union> set zs. \<exists>i. ident y = Some i \<and> i < n"
    by (fastforce simp: objects_ok_def list_all_iff split: option.splits)
  with assms(2) have f: "ident v \<notin> ident ` (set ys \<union> set zs)"
    by force
  from assms(1) have "distinct (map ident (ys @ zs))" by (simp add: objects_ok_def)
  with f have "distinct (map ident (ys @ v # zs))" by auto
  moreover have "list_all (\<lambda>x. case ident x of Some i \<Rightarrow> i < Suc n | None \<Rightarrow> False)
                   (ys @ v # zs)"
    unfolding list_all_iff
  proof
    fix x assume "x \<in> set (ys @ v # zs)"
    then have "x = v \<or> x \<in> set ys \<union> set zs" by auto
    then show "case ident x of Some i \<Rightarrow> i < Suc n | None \<Rightarrow> False"
    proof
      assume "x = v"
      with assms(2) show ?thesis by simp
    next
      assume "x \<in> set ys \<union> set zs"
      with b obtain i where "ident x = Some i" and "i < n" by blast
      then show ?thesis by simp
    qed
  qed
  ultimately show ?thesis by (simp add: objects_ok_def)
qed

lemma objects_ok_insert:
  assumes "objects_ok n xs" and "ident v = Some n"
  shows "objects_ok (Suc n) (list_insert a v xs)"
proof -
  define j where "j = nat (if a < 0 then max 0 (a + int (length xs)) else min a (int (length xs)))"
  have l: "list_insert a v xs = take j xs @ v # drop j xs"
    by (simp add: list_insert_def Let_def j_def)
  from assms(1) have "objects_ok n (take j xs @ drop j xs)" by simp
  from objects_ok_middle [OF this assms(2)] show ?thesis by (simp add: l)
qed

text \<open>
  Every constructor either fails before it has changed anything, or builds one instruction
  of identity \<open>next_id\<close> and hands it to \<open>emit\<close>. Which of the two is decided by its
  checks, on a builder that has a block.
\<close>

lemma run_call_cases:
  "(\<exists>e. run_call g c s = (Inl e, s)) \<or>
   (\<exists>i. run_call g c s = emit i s \<and> ident i = Some (next_id s))"
  by (cases c)
    (auto simp: add_def sub_def mul_def udiv_def sdiv_def binop_def
      icmp_signed_def icmp_unsigned_def fcmp_ordered_def fcmp_unordered_def
      trunc_def zext_def sext_def fptrunc_def fpext_def bitcast_def fptoui_def uitofp_def
      fptosi_def sitofp_def castop_def alloca_def load_def store_def Let_def
      split: sum.splits option.splits)

lemma run_call_accepted:
  assumes "block (self s) = Some b" and "accepts g c"
  shows "\<exists>i. run_call g c s = emit i s"
  using assms
  by (cases c)
    (auto simp: add_def sub_def mul_def udiv_def sdiv_def binop_def
      icmp_signed_def icmp_unsigned_def fcmp_ordered_def fcmp_unordered_def
      trunc_def zext_def sext_def fptrunc_def fpext_def bitcast_def fptoui_def uitofp_def
      fptosi_def sitofp_def castop_def alloca_def load_def store_def Let_def
      builder_function_def
      split: count_arg.splits)

lemma run_call_refused:
  assumes "\<not> accepts g c"
  shows "\<exists>e. run_call g c s = (Inl e, s)"
  using assms
  by (cases c)
    (auto simp: add_def sub_def mul_def udiv_def sdiv_def binop_def
      icmp_signed_def icmp_unsigned_def alloca_def
      split: count_arg.splits sum.splits)

lemma emit_Inr:
  assumes "emit i s = (Inr v, s')"
  shows "v = i \<and> (\<exists>b. block (self s) = Some b \<and>
           s' = s\<lparr>self := \<lparr>block = Some b, anchor = anchor (self s) + 1\<rparr>,
                  heap := (heap s)(b := (heap s b)\<lparr>instructions :=
                           list_insert (anchor (self s)) i (instructions (heap s b))\<rparr>),
                  next_id := Suc (next_id s)\<rparr>)"
proof (cases "block (self s)")
  case None
  with assms show ?thesis by (simp add: emit_no_block)
next
  case (Some b)
  have r: "(self s)\<lparr>anchor := a\<rparr> = \<lparr>block = Some b, anchor = a\<rparr>" for a
    using Some by (cases "self s") simp
  from assms Some show ?thesis by (auto simp: emit_ok r)
qed

lemma run_call_Inr:
  assumes "run_call g c s = (Inr v, s')"
  shows "ident v = Some (next_id s) \<and> (\<exists>b. block (self s) = Some b \<and>
           s' = s\<lparr>self := \<lparr>block = Some b, anchor = anchor (self s) + 1\<rparr>,
                  heap := (heap s)(b := (heap s b)\<lparr>instructions :=
                           list_insert (anchor (self s)) v (instructions (heap s b))\<rparr>),
                  next_id := Suc (next_id s)\<rparr>)"
proof -
  from run_call_cases [of g c s] assms obtain i
    where "emit i s = (Inr v, s')" and "ident i = Some (next_id s)"
    by auto
  with emit_Inr [of i s v s'] show ?thesis by auto
qed

lemma run_call_Inl: "run_call g c s = (Inl e, s') \<Longrightarrow> s' = s"
  using run_call_cases [of g c s]
  by (auto simp: emit_def insert_instr_def split: option.splits)

lemma run_call_returns:
  assumes "block (self s) = Some b" and "accepts g c"
  shows "\<exists>v s'. run_call g c s = (Inr v, s')"
proof -
  from run_call_accepted [OF assms] obtain i where "run_call g c s = emit i s" ..
  with emit_ok [OF assms(1), of i] show ?thesis by simp
qed

lemma run_call_at_end:
  assumes "run_call g c s = (Inr v, s')"
    and "self s = \<lparr>block = Some b, anchor = int (length (instructions (heap s b)))\<rparr>"
  shows "instructions (heap s' b) = instructions (heap s b) @ [v] \<and>
         self s' = \<lparr>block = Some b, anchor = int (length (instructions (heap s' b)))\<rparr>"
  using run_call_Inr [OF assms(1)] assms(2) by (auto simp: list_insert_end)

lemma run_call_objects_ok:
  assumes "run_call g c s = (r, s')"
    and "objects_ok (next_id s) (instructions (heap s b))"
  shows "objects_ok (next_id s') (instructions (heap s' b))"
proof (cases r)
  case (Inl e)
  with assms(1) have "s' = s" by (simp add: run_call_Inl)
  with assms(2) show ?thesis by simp
next
  case (Inr v)
  with assms(1) have c: "run_call g c s = (Inr v, s')" by simp
  from run_call_Inr [OF c] obtain b' where i: "ident v = Some (next_id s)"
    and s': "s' = s\<lparr>self := \<lparr>block = Some b', anchor = anchor (self s) + 1\<rparr>,
                  heap := (heap s)(b' := (heap s b')\<lparr>instructions :=
                           list_insert (anchor (self s)) v (instructions (heap s b'))\<rparr>),
                  next_id := Suc (next_id s)\<rparr>"
    by auto
  show ?thesis
  proof (cases "b = b'")
    case True
    with objects_ok_insert [OF assms(2) i] show ?thesis by (simp add: s')
  next
    case False
    with objects_ok_mono [OF assms(2), of "Suc (next_id s)"] show ?thesis by (simp add: s')
  qed
qed

lemma set_terminator_objects_ok:
  assumes "set_terminator t s = (r, s')"
    and "objects_ok (next_id s) (instructions (heap s b))"
  shows "objects_ok (next_id s') (instructions (heap s' b))"
proof (cases r)
  case (Inl e)
  with assms(1) have "s' = s"
    by (auto simp: set_terminator_def split: option.splits if_splits)
  with assms(2) show ?thesis by simp
next
  case (Inr v)
  with assms(1) have "instructions (heap s' b) = instructions (heap s b)"
    and "next_id s' = Suc (next_id s)"
    by (auto simp: set_terminator_def split: option.splits if_splits)
  with objects_ok_mono [OF assms(2), of "Suc (next_id s)"] show ?thesis by simp
qed

lemma terminators_objects_ok:
  assumes "objects_ok (next_id s) (instructions (heap s b))"
  shows "objects_ok (next_id (snd (jump target s))) (instructions (heap (snd (jump target s)) b))"
    and "objects_ok (next_id (snd (branch cond truebr falsebr s)))
           (instructions (heap (snd (branch cond truebr falsebr s)) b))"
    and "objects_ok (next_id (snd (ret_void s))) (instructions (heap (snd (ret_void s)) b))"
    and "objects_ok (next_id (snd (ret v s))) (instructions (heap (snd (ret v s)) b))"
  using assms set_terminator_objects_ok [OF prod.collapse [symmetric] assms]
  by (auto simp: jump_def branch_def ret_void_def ret_def split: sum.splits)

lemma run_call_terminator_blind:
  "fst (run_call g c (s\<lparr>heap := (heap s)(b := (heap s b)\<lparr>terminator := t\<rparr>)\<rparr>))
     = fst (run_call g c s)"
  by (cases c)
    (auto simp: add_def sub_def mul_def udiv_def sdiv_def binop_def
      icmp_signed_def icmp_unsigned_def fcmp_ordered_def fcmp_unordered_def
      trunc_def zext_def sext_def fptrunc_def fpext_def bitcast_def fptoui_def uitofp_def
      fptosi_def sitofp_def castop_def alloca_def load_def store_def Let_def
      builder_function_def emit_def insert_instr_def
      split: sum.splits option.splits)

text \<open>The example states, evaluated.\<close>

lemma ex_state_self: "self ex_state = \<lparr>block = Some 0, anchor = 0\<rparr>"
  by (simp add: ex_state_def IRBuilder_init_def ex_heap_def)

lemma ex_state_block: "block (self ex_state) = Some 0"
  by (simp add: ex_state_self)

lemma ex_state_anchor: "anchor (self ex_state) = 0"
  by (simp add: ex_state_self)

lemma ex_state_heap: "heap ex_state b = \<lparr>parent = 0, instructions = [], terminator = None\<rparr>"
  by (simp add: ex_state_def IRBuilder_init_def ex_heap_def)

lemma ex_state_parent: "parent (heap ex_state b) = 0"
  by (simp add: ex_state_heap)

lemma ex_state_next_id: "next_id ex_state = 0"
  by (simp add: ex_state_def IRBuilder_init_def)

lemma ex_closed_eq:
  "ex_closed = ex_state\<lparr>heap := (heap ex_state)(0 := (heap ex_state 0)\<lparr>terminator :=
                    Some (Terminator 0 0 ''br'' [BlockOp 1])\<rparr>), next_id := 1\<rparr>"
  by (simp add: ex_closed_def jump_def builder_function_def set_terminator_def is_terminated_def
      ex_state_block ex_state_heap ex_state_next_id)

lemma ex_closed_self: "self ex_closed = \<lparr>block = Some 0, anchor = 0\<rparr>"
  by (simp add: ex_closed_eq ex_state_self)

lemma ex_closed_heap0:
  "heap ex_closed 0 = \<lparr>parent = 0, instructions = [],
     terminator = Some (Terminator 0 0 ''br'' [BlockOp 1])\<rparr>"
  by (simp add: ex_closed_eq ex_state_heap)

lemma ex_closed_next_id: "next_id ex_closed = 1"
  by (simp add: ex_closed_eq)

lemma ex_state2_self: "self ex_state2 = \<lparr>block = Some 0, anchor = 3\<rparr>"
  by (simp add: ex_state2_def IRBuilder_init_def ex_heap2_def)

lemma ex_state2_heap0:
  "heap ex_state2 0 = \<lparr>parent = 0,
     instructions = [ex_alloca 0 ''a'', ex_alloca 1 ''b'', ex_alloca 2 ''c''],
     terminator = None\<rparr>"
  by (simp add: ex_state2_def IRBuilder_init_def ex_heap2_def)

lemma ex_state2_block0:
  "instructions (heap ex_state2 0) = [ex_alloca 0 ''a'', ex_alloca 1 ''b'', ex_alloca 2 ''c'']"
  by (simp add: ex_state2_heap0)

lemma ex_state2_block1: "instructions (heap ex_state2 1) = [ex_alloca 3 ''d'']"
  by (simp add: ex_state2_def IRBuilder_init_def ex_heap2_def)

lemma ex_state2_next_id: "next_id ex_state2 = 4"
  by (simp add: ex_state2_def IRBuilder_init_def)

lemma ex_twins_self: "self ex_twins = \<lparr>block = Some 0, anchor = 2\<rparr>"
  by (simp add: ex_twins_def add_def binop_def builder_function_def emit_def insert_instr_def
      ex_i32_def ex_state_self ex_state_heap ex_state_next_id)

lemma ex_twins_block0: "instructions (heap ex_twins 0) = [ex_twin 0, ex_twin 1]"
  by (simp add: ex_twins_def add_def binop_def builder_function_def emit_def insert_instr_def
      ex_i32_def ex_state_self ex_state_heap ex_state_next_id list_insert_def ex_twin_def)

lemma ex_twins_next_id: "next_id ex_twins = 2"
  by (simp add: ex_twins_def add_def binop_def builder_function_def emit_def insert_instr_def
      ex_i32_def ex_state_self ex_state_heap ex_state_next_id)

subsection \<open>Instructions after the terminator\<close>

text \<open>
  C1 as it is stated does not hold of the code. Block 0 is open and empty; \<open>jump\<close> closes
  it; \<open>add\<close> on the closed block then returns its instruction and the instruction is in
  the block's sequence.
\<close>

theorem add_after_jump_counterexample:
  "fst (jump 1 ex_state) = Inr (Terminator 0 0 ''br'' [BlockOp 1]) \<and>
   ex_closed = snd (jump 1 ex_state) \<and>
   block (self ex_closed) = Some 0 \<and>
   is_terminated (heap ex_closed 0) \<and>
   instructions (heap ex_closed 0) = [] \<and>
   fst (add (ex_i32 1) (ex_i32 2) ''x'' ex_closed)
     = Inr (Instruction 1 0 (Some (IntType 32)) ''add'' [ex_i32 1, ex_i32 2] ''x'') \<and>
   instructions (heap (snd (add (ex_i32 1) (ex_i32 2) ''x'' ex_closed)) 0)
     = [Instruction 1 0 (Some (IntType 32)) ''add'' [ex_i32 1, ex_i32 2] ''x'']"
proof -
  have j: "fst (jump 1 ex_state) = Inr (Terminator 0 0 ''br'' [BlockOp 1])"
    by (simp add: jump_def builder_function_def set_terminator_def is_terminated_def
        ex_state_block ex_state_heap ex_state_next_id)
  have t: "value_type (ex_i32 1) = value_type (ex_i32 2)"
    "value_type (ex_i32 1) = Some (IntType 32)"
    by (simp_all add: ex_i32_def)
  have b: "block (self ex_closed) = Some 0" by (simp add: ex_closed_self)
  have a: "fst (add (ex_i32 1) (ex_i32 2) ''x'' ex_closed)
     = Inr (Instruction 1 0 (Some (IntType 32)) ''add'' [ex_i32 1, ex_i32 2] ''x'')"
    "instructions (heap (snd (add (ex_i32 1) (ex_i32 2) ''x'' ex_closed)) 0)
     = [Instruction 1 0 (Some (IntType 32)) ''add'' [ex_i32 1, ex_i32 2] ''x'']"
    using t(1) by (simp_all add: add_def binop_def builder_function_def emit_ok [OF b] b
        ex_closed_heap0 ex_closed_self ex_closed_next_id t(2) list_insert_def)
  show ?thesis
    using j a by (simp add: ex_closed_self ex_closed_heap0 is_terminated_def)
      (simp add: ex_closed_def)
qed

text \<open>
  C1, amended. On a block whose terminator is set, a constructor of instructions is not
  refused on account of the terminator. \<open>add\<close> on operands of equal type returns its
  instruction and inserts it at the cursor: the sequence is one longer and the terminator is
  what it was. Every constructor call returns what it would return had the terminator not
  been set, and when it returns an instruction, that instruction has been inserted at the
  cursor and the terminator is what it was.
\<close>

theorem constructors_on_terminated_block:
  assumes "block (self s) = Some b" and "is_terminated (heap s b)"
  shows "(value_type lhs = value_type rhs \<longrightarrow>
            fst (add lhs rhs name s)
              = Inr (Instruction (next_id s) (parent (heap s b)) (value_type lhs) ''add''
                       [lhs, rhs] name) \<and>
            instructions (heap (snd (add lhs rhs name s)) b)
              = list_insert (anchor (self s))
                  (Instruction (next_id s) (parent (heap s b)) (value_type lhs) ''add''
                     [lhs, rhs] name)
                  (instructions (heap s b)) \<and>
            length (instructions (heap (snd (add lhs rhs name s)) b))
              = Suc (length (instructions (heap s b))) \<and>
            terminator (heap (snd (add lhs rhs name s)) b) = terminator (heap s b)) \<and>
         fst (run_call g c s)
           = fst (run_call g c (s\<lparr>heap := (heap s)(b := (heap s b)\<lparr>terminator := None\<rparr>)\<rparr>)) \<and>
         (\<forall>v s'. run_call g c s = (Inr v, s') \<longrightarrow>
            instructions (heap s' b)
              = list_insert (anchor (self s)) v (instructions (heap s b)) \<and>
            terminator (heap s' b) = terminator (heap s b))"
proof (intro conjI impI allI)
  assume t: "value_type lhs = value_type rhs"
  have a: "add lhs rhs name s =
    emit (Instruction (next_id s) (parent (heap s b)) (value_type lhs) ''add'' [lhs, rhs] name) s"
    using t assms(1) by (simp add: add_def binop_def builder_function_def)
  show "fst (add lhs rhs name s)
              = Inr (Instruction (next_id s) (parent (heap s b)) (value_type lhs) ''add''
                       [lhs, rhs] name)"
    by (simp add: a emit_ok [OF assms(1)])
  show i: "instructions (heap (snd (add lhs rhs name s)) b)
              = list_insert (anchor (self s))
                  (Instruction (next_id s) (parent (heap s b)) (value_type lhs) ''add''
                     [lhs, rhs] name)
                  (instructions (heap s b))"
    by (simp add: a emit_ok [OF assms(1)])
  show "length (instructions (heap (snd (add lhs rhs name s)) b))
              = Suc (length (instructions (heap s b)))"
    by (simp add: i length_list_insert)
  show "terminator (heap (snd (add lhs rhs name s)) b) = terminator (heap s b)"
    by (simp add: a emit_ok [OF assms(1)])
next
  show "fst (run_call g c s)
           = fst (run_call g c (s\<lparr>heap := (heap s)(b := (heap s b)\<lparr>terminator := None\<rparr>)\<rparr>))"
    by (rule run_call_terminator_blind [symmetric])
next
  fix v s'
  assume r: "run_call g c s = (Inr v, s')"
  from run_call_Inr [OF r] assms(1)
  show "instructions (heap s' b) = list_insert (anchor (self s)) v (instructions (heap s b))"
    by auto
  from run_call_Inr [OF r] assms(1)
  show "terminator (heap s' b) = terminator (heap s b)"
    by auto
qed

theorem constructors_on_terminated_block_witness:
  "block (self ex_closed) = Some 0 \<and> is_terminated (heap ex_closed 0) \<and>
   value_type (ex_i32 1) = value_type (ex_i32 2) \<and>
   fst (add (ex_i32 1) (ex_i32 2) ''x'' ex_closed)
     = Inr (Instruction 1 0 (Some (IntType 32)) ''add'' [ex_i32 1, ex_i32 2] ''x'') \<and>
   length (instructions (heap (snd (add (ex_i32 1) (ex_i32 2) ''x'' ex_closed)) 0)) = 1 \<and>
   terminator (heap (snd (add (ex_i32 1) (ex_i32 2) ''x'' ex_closed)) 0)
     = Some (Terminator 0 0 ''br'' [BlockOp 1]) \<and>
   fst (run_call ex_gt0 ex_store ex_closed)
     = fst (run_call ex_gt0 ex_store
         (ex_closed\<lparr>heap := (heap ex_closed)(0 := (heap ex_closed 0)\<lparr>terminator := None\<rparr>)\<rparr>)) \<and>
   fst (run_call ex_gt0 ex_store ex_closed) = Inr (StoreInstr 1 0 (ex_i32 1) (ex_alloca 0 ''a''))"
proof -
  have b: "block (self ex_closed) = Some 0" by (simp add: ex_closed_self)
  have c: "is_terminated (heap ex_closed 0)" by (simp add: is_terminated_def ex_closed_heap0)
  have t1: "value_type (ex_i32 1) = Some (IntType 32)"
    and t2: "value_type (ex_i32 2) = Some (IntType 32)"
    by (simp_all add: ex_i32_def)
  have t: "value_type (ex_i32 1) = value_type (ex_i32 2)" by (simp add: t1 t2)
  have st: "fst (run_call ex_gt0 ex_store ex_closed)
              = Inr (StoreInstr 1 0 (ex_i32 1) (ex_alloca 0 ''a''))"
    by (simp add: ex_store_def store_def builder_function_def emit_ok [OF b] b ex_closed_heap0
        ex_closed_next_id)
  show ?thesis
    using b c t st
      constructors_on_terminated_block [OF b c, of "ex_i32 1" "ex_i32 2" "''x''" ex_gt0 ex_store]
    by (simp add: ex_closed_heap0 ex_closed_self ex_closed_next_id t1 t2 list_insert_def)
qed

subsection \<open>Arithmetic on operands of different types\<close>

text \<open>
  C2. When the types of \<open>lhs\<close> and \<open>rhs\<close> differ, each of \<open>add\<close>, \<open>sub\<close>, \<open>mul\<close>,
  \<open>udiv\<close> and \<open>sdiv\<close> fails on its assertion "Operands must be the same type" (the
  failure the spec calls TypeMismatchError) and returns the state it was given: no block's
  instruction sequence changes, in length or in contents.
\<close>

theorem arithmetic_type_mismatch:
  assumes "value_type lhs \<noteq> value_type rhs"
  shows "add lhs rhs name s = (Inl (AssertionError ''Operands must be the same type''), s) \<and>
         sub lhs rhs name s = (Inl (AssertionError ''Operands must be the same type''), s) \<and>
         mul lhs rhs name s = (Inl (AssertionError ''Operands must be the same type''), s) \<and>
         udiv lhs rhs name s = (Inl (AssertionError ''Operands must be the same type''), s) \<and>
         sdiv lhs rhs name s = (Inl (AssertionError ''Operands must be the same type''), s)"
  using assms by (simp add: add_def sub_def mul_def udiv_def sdiv_def binop_def)

theorem arithmetic_type_mismatch_witness:
  "value_type (ex_i32 1) \<noteq> value_type (ex_i64 2) \<and>
   add (ex_i32 1) (ex_i64 2) ''x'' ex_state
     = (Inl (AssertionError ''Operands must be the same type''), ex_state) \<and>
   sdiv (ex_i32 1) (ex_i64 2) ''x'' ex_state
     = (Inl (AssertionError ''Operands must be the same type''), ex_state) \<and>
   instructions (heap (snd (add (ex_i32 1) (ex_i64 2) ''x'' ex_state)) 0) = []"
proof -
  have h: "value_type (ex_i32 1) \<noteq> value_type (ex_i64 2)"
    by (simp add: ex_i32_def ex_i64_def)
  show ?thesis
    using h arithmetic_type_mismatch [OF h, of "''x''" ex_state]
    by (simp add: ex_state_heap)
qed

subsection \<open>Arithmetic on operands of equal type\<close>

text \<open>
  C3. When the types of \<open>lhs\<close> and \<open>rhs\<close> are equal and the builder has a current block,
  \<open>add lhs rhs\<close> returns a new instruction of opcode "add" whose type is the type of
  \<open>lhs\<close> and whose operands are \<open>lhs\<close>, \<open>rhs\<close> in that order, and that instruction is
  inserted into the current block at the cursor, which moves one past it.
\<close>

theorem add_equal_types:
  assumes "value_type lhs = value_type rhs" and "block (self s) = Some b"
  shows "fst (add lhs rhs name s)
           = Inr (Instruction (next_id s) (parent (heap s b)) (value_type lhs) ''add''
                    [lhs, rhs] name) \<and>
         value_type (Instruction (next_id s) (parent (heap s b)) (value_type lhs) ''add''
                       [lhs, rhs] name)
           = value_type lhs \<and>
         self (snd (add lhs rhs name s)) = \<lparr>block = Some b, anchor = anchor (self s) + 1\<rparr> \<and>
         instructions (heap (snd (add lhs rhs name s)) b)
           = list_insert (anchor (self s))
               (Instruction (next_id s) (parent (heap s b)) (value_type lhs) ''add''
                  [lhs, rhs] name)
               (instructions (heap s b)) \<and>
         (0 \<le> anchor (self s) \<and> anchor (self s) \<le> int (length (instructions (heap s b))) \<longrightarrow>
            instructions (heap (snd (add lhs rhs name s)) b)
              = take (nat (anchor (self s))) (instructions (heap s b))
                @ Instruction (next_id s) (parent (heap s b)) (value_type lhs) ''add''
                    [lhs, rhs] name
                # drop (nat (anchor (self s))) (instructions (heap s b)))"
  using assms
  by (simp add: add_def binop_def builder_function_def emit_ok list_insert_in_range)

theorem add_equal_types_witness:
  "value_type (ex_i32 1) = value_type (ex_i32 2) \<and> block (self ex_state) = Some 0 \<and>
   0 \<le> anchor (self ex_state) \<and>
   anchor (self ex_state) \<le> int (length (instructions (heap ex_state 0))) \<and>
   fst (add (ex_i32 1) (ex_i32 2) ''t'' ex_state)
     = Inr (Instruction 0 0 (Some (IntType 32)) ''add'' [ex_i32 1, ex_i32 2] ''t'') \<and>
   anchor (self (snd (add (ex_i32 1) (ex_i32 2) ''t'' ex_state))) = 1 \<and>
   instructions (heap (snd (add (ex_i32 1) (ex_i32 2) ''t'' ex_state)) 0)
     = [Instruction 0 0 (Some (IntType 32)) ''add'' [ex_i32 1, ex_i32 2] ''t'']"
proof -
  have h1: "value_type (ex_i32 1) = value_type (ex_i32 2)" by (simp add: ex_i32_def)
  have h2: "block (self ex_state) = Some 0" by (rule ex_state_block)
  have t: "value_type (ex_i32 1) = Some (IntType 32)" by (simp add: ex_i32_def)
  show ?thesis
    using h1 h2 add_equal_types [OF h1 h2, of "''t''"]
    by (simp add: t ex_state_anchor ex_state_heap ex_state_next_id list_insert_def)
qed

subsection \<open>Comparison predicates\<close>

text \<open>
  C4. The table maps \<open>>\<close>, \<open><\<close>, \<open>==\<close>, \<open>!=\<close>, \<open>>=\<close>, \<open><=\<close> to gt, lt, eq, ne, ge,
  le. For a builder with a current block and each of the six symbols, \<open>icmp_signed\<close> makes
  an instruction whose predicate is the base with "s" in front unless the base is eq or ne,
  \<open>icmp_unsigned\<close> the same with "u", \<open>fcmp_ordered\<close> puts "o" in front and
  \<open>fcmp_unordered\<close> "u"; for any other string the two fcmp constructors use the string as
  it is. In particular signed \<open><\<close> is "slt", signed \<open>==\<close> is "eq", unsigned \<open>>=\<close> is
  "uge", ordered \<open>!=\<close> is "one" and unordered \<open><=\<close> is "ule".
\<close>

theorem comparison_predicates:
  assumes "block (self s) = Some b"
  shows "CMP_MAP ''>'' = Some ''gt'' \<and> CMP_MAP ''<'' = Some ''lt'' \<and>
         CMP_MAP ''=='' = Some ''eq'' \<and> CMP_MAP ''!='' = Some ''ne'' \<and>
         CMP_MAP ''>='' = Some ''ge'' \<and> CMP_MAP ''<='' = Some ''le'' \<and>
         (\<forall>cmpop \<in> {''>'', ''<'', ''=='', ''!='', ''>='', ''<=''}. \<forall>base.
            CMP_MAP cmpop = Some base \<longrightarrow>
              fst (icmp_signed cmpop lhs rhs name s)
                = Inr (ICMPInstr (next_id s) (parent (heap s b))
                        (if base \<in> {''eq'', ''ne''} then base else ''s'' @ base) lhs rhs name) \<and>
              fst (icmp_unsigned cmpop lhs rhs name s)
                = Inr (ICMPInstr (next_id s) (parent (heap s b))
                        (if base \<in> {''eq'', ''ne''} then base else ''u'' @ base) lhs rhs name) \<and>
              fst (fcmp_ordered cmpop lhs rhs name s)
                = Inr (FCMPInstr (next_id s) (parent (heap s b)) (''o'' @ base) lhs rhs name) \<and>
              fst (fcmp_unordered cmpop lhs rhs name s)
                = Inr (FCMPInstr (next_id s) (parent (heap s b)) (''u'' @ base) lhs rhs name)) \<and>
         (\<forall>cmpop. cmpop \<notin> {''>'', ''<'', ''=='', ''!='', ''>='', ''<=''} \<longrightarrow>
              fst (fcmp_ordered cmpop lhs rhs name s)
                = Inr (FCMPInstr (next_id s) (parent (heap s b)) cmpop lhs rhs name) \<and>
              fst (fcmp_unordered cmpop lhs rhs name s)
                = Inr (FCMPInstr (next_id s) (parent (heap s b)) cmpop lhs rhs name)) \<and>
         fst (icmp_signed ''<'' lhs rhs name s)
           = Inr (ICMPInstr (next_id s) (parent (heap s b)) ''slt'' lhs rhs name) \<and>
         fst (icmp_signed ''=='' lhs rhs name s)
           = Inr (ICMPInstr (next_id s) (parent (heap s b)) ''eq'' lhs rhs name) \<and>
         fst (icmp_unsigned ''>='' lhs rhs name s)
           = Inr (ICMPInstr (next_id s) (parent (heap s b)) ''uge'' lhs rhs name) \<and>
         fst (fcmp_ordered ''!='' lhs rhs name s)
           = Inr (FCMPInstr (next_id s) (parent (heap s b)) ''one'' lhs rhs name) \<and>
         fst (fcmp_unordered ''<='' lhs rhs name s)
           = Inr (FCMPInstr (next_id s) (parent (heap s b)) ''ule'' lhs rhs name)"
proof -
  have gen: "fst (icmp_signed cmpop lhs rhs name s)
                = Inr (ICMPInstr (next_id s) (parent (heap s b))
                        (if base \<in> {''eq'', ''ne''} then base else ''s'' @ base) lhs rhs name) \<and>
              fst (icmp_unsigned cmpop lhs rhs name s)
                = Inr (ICMPInstr (next_id s) (parent (heap s b))
                        (if base \<in> {''eq'', ''ne''} then base else ''u'' @ base) lhs rhs name) \<and>
              fst (fcmp_ordered cmpop lhs rhs name s)
                = Inr (FCMPInstr (next_id s) (parent (heap s b)) (''o'' @ base) lhs rhs name) \<and>
              fst (fcmp_unordered cmpop lhs rhs name s)
                = Inr (FCMPInstr (next_id s) (parent (heap s b)) (''u'' @ base) lhs rhs name)"
    if m: "CMP_MAP cmpop = Some base" for cmpop base
  proof -
    have eq: "(cmpop \<in> {''=='', ''!=''}) = (base \<in> {''eq'', ''ne''})"
      by (rule CMP_MAP_base [OF m])
    show ?thesis
    proof (cases "cmpop \<in> {''=='', ''!=''}")
      case True
      with eq have "base \<in> {''eq'', ''ne''}" by blast
      with True m assms show ?thesis
        by (simp add: icmp_signed_def icmp_unsigned_def fcmp_ordered_def fcmp_unordered_def
            builder_function_def emit_ok Let_def)
    next
      case False
      with eq have "base \<notin> {''eq'', ''ne''}" by blast
      with False m assms show ?thesis
        by (simp add: icmp_signed_def icmp_unsigned_def fcmp_ordered_def fcmp_unordered_def
            builder_function_def emit_ok Let_def)
    qed
  qed
  have raw: "fst (fcmp_ordered cmpop lhs rhs name s)
                = Inr (FCMPInstr (next_id s) (parent (heap s b)) cmpop lhs rhs name) \<and>
              fst (fcmp_unordered cmpop lhs rhs name s)
                = Inr (FCMPInstr (next_id s) (parent (heap s b)) cmpop lhs rhs name)"
    if "cmpop \<notin> {''>'', ''<'', ''=='', ''!='', ''>='', ''<=''}" for cmpop
    using CMP_MAP_None [OF that] assms
    by (simp add: fcmp_ordered_def fcmp_unordered_def builder_function_def emit_ok Let_def)
  show ?thesis
    using gen [OF CMP_MAP_table(2)] gen [OF CMP_MAP_table(3)] gen [OF CMP_MAP_table(5)]
      gen [OF CMP_MAP_table(4)] gen [OF CMP_MAP_table(6)] gen raw
    by (simp add: CMP_MAP_table)
qed

theorem comparison_predicates_witness:
  "block (self ex_state) = Some 0 \<and>
   ''>'' \<in> {''>'', ''<'', ''=='', ''!='', ''>='', ''<=''} \<and> CMP_MAP ''>'' = Some ''gt'' \<and>
   ''ord'' \<notin> {''>'', ''<'', ''=='', ''!='', ''>='', ''<=''} \<and>
   fst (icmp_signed ''>'' (ex_i32 1) (ex_i32 2) ''c'' ex_state)
     = Inr (ICMPInstr 0 0 ''sgt'' (ex_i32 1) (ex_i32 2) ''c'') \<and>
   fst (icmp_unsigned ''>'' (ex_i32 1) (ex_i32 2) ''c'' ex_state)
     = Inr (ICMPInstr 0 0 ''ugt'' (ex_i32 1) (ex_i32 2) ''c'') \<and>
   fst (fcmp_ordered ''>'' (ex_i32 1) (ex_i32 2) ''c'' ex_state)
     = Inr (FCMPInstr 0 0 ''ogt'' (ex_i32 1) (ex_i32 2) ''c'') \<and>
   fst (fcmp_unordered ''ord'' (ex_i32 1) (ex_i32 2) ''c'' ex_state)
     = Inr (FCMPInstr 0 0 ''ord'' (ex_i32 1) (ex_i32 2) ''c'') \<and>
   fst (icmp_signed ''<'' (ex_i32 1) (ex_i32 2) ''c'' ex_state)
     = Inr (ICMPInstr 0 0 ''slt'' (ex_i32 1) (ex_i32 2) ''c'') \<and>
   fst (icmp_signed ''=='' (ex_i32 1) (ex_i32 2) ''c'' ex_state)
     = Inr (ICMPInstr 0 0 ''eq'' (ex_i32 1) (ex_i32 2) ''c'') \<and>
   fst (icmp_unsigned ''>='' (ex_i32 1) (ex_i32 2) ''c'' ex_state)
     = Inr (ICMPInstr 0 0 ''uge'' (ex_i32 1) (ex_i32 2) ''c'') \<and>
   fst (fcmp_ordered ''!='' (ex_i32 1) (ex_i32 2) ''c'' ex_state)
     = Inr (FCMPInstr 0 0 ''one'' (ex_i32 1) (ex_i32 2) ''c'') \<and>
   fst (fcmp_unordered ''<='' (ex_i32 1) (ex_i32 2) ''c'' ex_state)
     = Inr (FCMPInstr 0 0 ''ule'' (ex_i32 1) (ex_i32 2) ''c'')"
proof -
  have h: "block (self ex_state) = Some 0" by (rule ex_state_block)
  have m: "CMP_MAP ''>'' = Some ''gt''" by (rule CMP_MAP_table)
  have i: "''>'' \<in> {''>'', ''<'', ''=='', ''!='', ''>='', ''<=''}" by simp
  have n: "''ord'' \<notin> {''>'', ''<'', ''=='', ''!='', ''>='', ''<=''}" by simp
  note th = comparison_predicates [OF h, of "ex_i32 1" "ex_i32 2" "''c''"]
  note g = th [THEN conjunct2, THEN conjunct2, THEN conjunct2, THEN conjunct2, THEN conjunct2,
      THEN conjunct2, THEN conjunct1, rule_format, OF i m]
  note r = th [THEN conjunct2, THEN conjunct2, THEN conjunct2, THEN conjunct2, THEN conjunct2,
      THEN conjunct2, THEN conjunct2, THEN conjunct1, rule_format, OF n]
  note ex = th [THEN conjunct2, THEN conjunct2, THEN conjunct2, THEN conjunct2, THEN conjunct2,
      THEN conjunct2, THEN conjunct2, THEN conjunct2]
  show ?thesis
    using h m i n g r ex by (simp add: ex_state_parent ex_state_next_id)
qed

subsection \<open>Positioning at an instruction\<close>

text \<open>
  C5 as it is stated does not hold of the code. The builder is on block 0 and the
  instruction named d is in block 1 and not in block 0: \<open>position_before\<close> returns normally
  and the builder is still on block 0, not on the block of the instruction.
\<close>

theorem position_before_other_block_counterexample:
  "block (self ex_state2) = Some 0 \<and>
   ex_alloca 3 ''d'' \<in> set (instructions (heap ex_state2 1)) \<and>
   list_all (\<lambda>x. \<not> same_object (ex_alloca 3 ''d'') x) (instructions (heap ex_state2 0)) \<and>
   fst (position_before (-1) (ex_alloca 3 ''d'') ex_state2) = Inr () \<and>
   block (self (snd (position_before (-1) (ex_alloca 3 ''d'') ex_state2))) = Some 0 \<and>
   block (self (snd (position_before (-1) (ex_alloca 3 ''d'') ex_state2))) \<noteq> Some 1"
  using ex_state2_block1
  by (simp add: position_before_def ex_state2_self ex_state2_block0 ex_alloca_def
      same_object_def)

text \<open>
  C5, amended. \<open>position_before\<close> and \<open>position_after\<close> leave the builder on its current
  block and look the instruction up there, by identity. For the instruction at index \<open>i\<close>
  of the current block, \<open>position_before\<close> sets the anchor to \<open>max(0, i - 1)\<close> and
  \<open>position_after\<close> sets it to \<open>min(i + 1, len(instructions))\<close>, and nothing else
  changes. This holds for every instruction of a block that the builder has filled, where no
  object occurs twice, and in any block for an instruction that does not occur before index
  \<open>i\<close>, so that \<open>i\<close> is its index.
\<close>

theorem position_in_current_block:
  assumes "block (self s) = Some b"
    and "i < length (instructions (heap s b))"
    and "objects_ok (next_id s) (instructions (heap s b)) \<or>
         (\<forall>j<i. \<not> same_object (instructions (heap s b) ! i) (instructions (heap s b) ! j))"
  shows "position_before nf (instructions (heap s b) ! i) s
           = (Inr (), s\<lparr>self := \<lparr>block = Some b, anchor = max 0 (int i - 1)\<rparr>\<rparr>) \<and>
         position_after nf (instructions (heap s b) ! i) s
           = (Inr (), s\<lparr>self := \<lparr>block = Some b,
                anchor = min (int i + 1) (int (length (instructions (heap s b))))\<rparr>\<rparr>)"
proof -
  from assms(3)
  have n: "\<forall>j<i. \<not> same_object (instructions (heap s b) ! i) (instructions (heap s b) ! j)"
    using objects_ok_first [OF _ assms(2)] by blast
  have f: "find_instr nf (instructions (heap s b) ! i) (instructions (heap s b)) = int i"
    using index_of_first [OF assms(2) n] by (simp add: find_instr_def)
  have r: "(self s)\<lparr>anchor := a\<rparr> = \<lparr>block = Some b, anchor = a\<rparr>" for a
    using assms(1) by (cases "self s") simp
  show ?thesis
    using assms(1) by (simp add: position_before_def position_after_def f r)
qed

theorem position_in_current_block_witness:
  "block (self ex_twins) = Some 0 \<and> 1 < length (instructions (heap ex_twins 0)) \<and>
   objects_ok (next_id ex_twins) (instructions (heap ex_twins 0)) \<and>
   instructions (heap ex_twins 0) ! 0 = ex_twin 0 \<and>
   instructions (heap ex_twins 0) ! 1 = ex_twin 1 \<and>
   position_before (-1) (ex_twin 1) ex_twins
     = (Inr (), ex_twins\<lparr>self := \<lparr>block = Some 0, anchor = 0\<rparr>\<rparr>) \<and>
   position_after (-1) (ex_twin 1) ex_twins
     = (Inr (), ex_twins\<lparr>self := \<lparr>block = Some 0, anchor = 2\<rparr>\<rparr>) \<and>
   block (self ex_state2) = Some 0 \<and> 2 < length (instructions (heap ex_state2 0)) \<and>
   list_all (\<lambda>x. \<not> same_object (instructions (heap ex_state2 0) ! 2) x)
     (take 2 (instructions (heap ex_state2 0))) \<and>
   instructions (heap ex_state2 0) ! 2 = ex_alloca 2 ''c'' \<and>
   position_before (-1) (ex_alloca 2 ''c'') ex_state2
     = (Inr (), ex_state2\<lparr>self := \<lparr>block = Some 0, anchor = 1\<rparr>\<rparr>) \<and>
   position_after (-1) (ex_alloca 2 ''c'') ex_state2
     = (Inr (), ex_state2\<lparr>self := \<lparr>block = Some 0, anchor = 3\<rparr>\<rparr>)"
proof -
  have t1: "block (self ex_twins) = Some 0" by (simp add: ex_twins_self)
  have t2: "1 < length (instructions (heap ex_twins 0))" by (simp add: ex_twins_block0)
  have t3: "objects_ok (next_id ex_twins) (instructions (heap ex_twins 0))"
    by (simp add: objects_ok_def ex_twins_block0 ex_twins_next_id ex_twin_def)
  have te: "instructions (heap ex_twins 0) ! 0 = ex_twin 0"
    "instructions (heap ex_twins 0) ! 1 = ex_twin 1"
    by (simp_all add: ex_twins_block0)
  have h1: "block (self ex_state2) = Some 0" by (simp add: ex_state2_self)
  have h2: "2 < length (instructions (heap ex_state2 0))" by (simp add: ex_state2_block0)
  have h3: "\<forall>j<2. \<not> same_object (instructions (heap ex_state2 0) ! 2)
              (instructions (heap ex_state2 0) ! j)"
    by (simp add: ex_state2_block0 ex_alloca_def same_object_def less_2_cases_iff)
  have h4: "list_all (\<lambda>x. \<not> same_object (instructions (heap ex_state2 0) ! 2) x)
     (take 2 (instructions (heap ex_state2 0)))"
    by (simp add: ex_state2_block0 ex_alloca_def same_object_def)
  have e: "instructions (heap ex_state2 0) ! 2 = ex_alloca 2 ''c''"
    by (simp add: ex_state2_block0)
  show ?thesis
    using t1 t2 t3 te h1 h2 h4 e
      position_in_current_block [OF t1 t2 disjI1 [OF t3], of "-1"]
      position_in_current_block [OF h1 h2 disjI2 [OF h3], of "-1"]
    by (simp add: ex_twins_block0 ex_state2_block0)
qed

subsection \<open>Positioning at an instruction that is not in the block\<close>

text \<open>
  C6 as it is stated does not hold of the code. The builder is at the end of block 0 (anchor
  3) and the instruction named z is not in that block: with the sentinel \<open>-1\<close>, both
  \<open>position_before\<close> and \<open>position_after\<close> return normally and move the anchor to 0.
\<close>

theorem position_not_found_counterexample:
  "block (self ex_state2) = Some 0 \<and>
   list_all (\<lambda>x. \<not> same_object (ex_alloca 9 ''z'') x) (instructions (heap ex_state2 0)) \<and>
   anchor (self ex_state2) = 3 \<and>
   position_before (-1) (ex_alloca 9 ''z'') ex_state2
     = (Inr (), ex_state2\<lparr>self := \<lparr>block = Some 0, anchor = 0\<rparr>\<rparr>) \<and>
   position_after (-1) (ex_alloca 9 ''z'') ex_state2
     = (Inr (), ex_state2\<lparr>self := \<lparr>block = Some 0, anchor = 0\<rparr>\<rparr>)"
  by (simp add: position_before_def position_after_def find_instr_def
      ex_state2_self ex_state2_block0 ex_alloca_def same_object_def)

text \<open>
  C6, amended. For an instruction that is not in the builder's current block (no member of
  the block's sequence is that object, whether or not one agrees with it in every field),
  \<open>position_before\<close> and \<open>position_after\<close> do not fail: they take the "not found"
  sentinel \<open>nf\<close> of \<open>find\<close> for an index and set the anchor to \<open>max(0, nf - 1)\<close> and to
  \<open>min(nf + 1, len(instructions))\<close>, leaving the block as it is.
\<close>

theorem position_not_found:
  assumes "block (self s) = Some b"
    and "\<forall>x \<in> set (instructions (heap s b)). \<not> same_object instr x"
  shows "position_before nf instr s
           = (Inr (), s\<lparr>self := \<lparr>block = Some b, anchor = max 0 (nf - 1)\<rparr>\<rparr>) \<and>
         position_after nf instr s
           = (Inr (), s\<lparr>self := \<lparr>block = Some b,
                anchor = min (nf + 1) (int (length (instructions (heap s b))))\<rparr>\<rparr>)"
proof -
  have f: "find_instr nf instr (instructions (heap s b)) = nf"
    using index_of_absent [OF assms(2)] by (simp add: find_instr_def)
  have r: "(self s)\<lparr>anchor := a\<rparr> = \<lparr>block = Some b, anchor = a\<rparr>" for a
    using assms(1) by (cases "self s") simp
  show ?thesis
    using assms(1) by (simp add: position_before_def position_after_def f r)
qed

theorem position_not_found_witness:
  "block (self ex_twins) = Some 0 \<and>
   instructions (heap ex_twins 0) = [ex_twin 0, ex_twin 1] \<and>
   list_all (\<lambda>x. \<not> same_object (ex_twin 7) x) (instructions (heap ex_twins 0)) \<and>
   anchor (self ex_twins) = 2 \<and>
   position_before (-1) (ex_twin 7) ex_twins
     = (Inr (), ex_twins\<lparr>self := \<lparr>block = Some 0, anchor = 0\<rparr>\<rparr>) \<and>
   position_after (-1) (ex_twin 7) ex_twins
     = (Inr (), ex_twins\<lparr>self := \<lparr>block = Some 0, anchor = 0\<rparr>\<rparr>) \<and>
   position_after (-5) (ex_twin 7) ex_twins
     = (Inr (), ex_twins\<lparr>self := \<lparr>block = Some 0, anchor = -4\<rparr>\<rparr>)"
proof -
  have h1: "block (self ex_twins) = Some 0" by (simp add: ex_twins_self)
  have h2: "\<forall>x \<in> set (instructions (heap ex_twins 0)). \<not> same_object (ex_twin 7) x"
    by (simp add: ex_twins_block0 ex_twin_def same_object_def)
  have h3: "list_all (\<lambda>x. \<not> same_object (ex_twin 7) x) (instructions (heap ex_twins 0))"
    using h2 by (simp add: list_all_iff)
  show ?thesis
    using h1 h3 position_not_found [OF h1 h2, of "-1"] position_not_found [OF h1 h2, of "-5"]
    by (simp add: ex_twins_block0 ex_twins_self)
qed

subsection \<open>Terminators\<close>

text \<open>
  C7. For a builder on a block whose terminator is set, each of \<open>jump\<close>, \<open>branch\<close>,
  \<open>ret_void\<close> and \<open>ret\<close> fails on the assertion of \<open>_set_terminator\<close> (the failure the
  spec calls AlreadyTerminatedError) and returns the state it was given, so the terminator
  and the instruction sequence of the block are what they were. On a block whose terminator
  is not set, each builds its terminator, stores it in the terminator slot of the block,
  changes nothing else in the heap or the builder and returns it.
\<close>

theorem terminators_once:
  assumes "block (self s) = Some b"
  shows "(is_terminated (heap s b) \<longrightarrow>
            jump target s = (Inl (AssertionError ''''), s) \<and>
            branch cond truebr falsebr s = (Inl (AssertionError ''''), s) \<and>
            ret_void s = (Inl (AssertionError ''''), s) \<and>
            ret v s = (Inl (AssertionError ''''), s)) \<and>
         (\<not> is_terminated (heap s b) \<longrightarrow>
            jump target s =
              (Inr (Terminator (next_id s) (parent (heap s b)) ''br'' [BlockOp target]),
               s\<lparr>heap := (heap s)(b := (heap s b)\<lparr>terminator :=
                    Some (Terminator (next_id s) (parent (heap s b)) ''br''
                            [BlockOp target])\<rparr>),
                 next_id := Suc (next_id s)\<rparr>) \<and>
            branch cond truebr falsebr s =
              (Inr (Terminator (next_id s) (parent (heap s b)) ''br''
                      [ValueOp cond, BlockOp truebr, BlockOp falsebr]),
               s\<lparr>heap := (heap s)(b := (heap s b)\<lparr>terminator :=
                    Some (Terminator (next_id s) (parent (heap s b)) ''br''
                            [ValueOp cond, BlockOp truebr, BlockOp falsebr])\<rparr>),
                 next_id := Suc (next_id s)\<rparr>) \<and>
            ret_void s =
              (Inr (Terminator (next_id s) (parent (heap s b)) ''ret void'' []),
               s\<lparr>heap := (heap s)(b := (heap s b)\<lparr>terminator :=
                    Some (Terminator (next_id s) (parent (heap s b)) ''ret void'' [])\<rparr>),
                 next_id := Suc (next_id s)\<rparr>) \<and>
            ret v s =
              (Inr (Terminator (next_id s) (parent (heap s b)) ''ret'' [ValueOp v]),
               s\<lparr>heap := (heap s)(b := (heap s b)\<lparr>terminator :=
                    Some (Terminator (next_id s) (parent (heap s b)) ''ret'' [ValueOp v])\<rparr>),
                 next_id := Suc (next_id s)\<rparr>))"
  using assms
  by (simp add: jump_def branch_def ret_void_def ret_def builder_function_def set_terminator_def)

theorem terminators_once_witness:
  "block (self ex_state) = Some 0 \<and> \<not> is_terminated (heap ex_state 0) \<and>
   fst (jump 1 ex_state) = Inr (Terminator 0 0 ''br'' [BlockOp 1]) \<and>
   terminator (heap (snd (jump 1 ex_state)) 0) = Some (Terminator 0 0 ''br'' [BlockOp 1]) \<and>
   instructions (heap (snd (jump 1 ex_state)) 0) = instructions (heap ex_state 0) \<and>
   self (snd (jump 1 ex_state)) = self ex_state \<and>
   fst (ret_void ex_state) = Inr (Terminator 0 0 ''ret void'' []) \<and>
   block (self ex_closed) = Some 0 \<and> is_terminated (heap ex_closed 0) \<and>
   jump 2 ex_closed = (Inl (AssertionError ''''), ex_closed) \<and>
   branch (ex_i32 1) 1 2 ex_closed = (Inl (AssertionError ''''), ex_closed) \<and>
   ret_void ex_closed = (Inl (AssertionError ''''), ex_closed) \<and>
   ret (ex_i32 1) ex_closed = (Inl (AssertionError ''''), ex_closed) \<and>
   terminator (heap (snd (ret_void ex_closed)) 0) = Some (Terminator 0 0 ''br'' [BlockOp 1])"
proof -
  have h: "block (self ex_state) = Some 0" by (rule ex_state_block)
  have o: "\<not> is_terminated (heap ex_state 0)" by (simp add: is_terminated_def ex_state_heap)
  have j: "jump 1 ex_state =
      (Inr (Terminator 0 0 ''br'' [BlockOp 1]),
       ex_state\<lparr>heap := (heap ex_state)(0 := (heap ex_state 0)\<lparr>terminator :=
                    Some (Terminator 0 0 ''br'' [BlockOp 1])\<rparr>),
                next_id := Suc 0\<rparr>)"
    using terminators_once [OF h, of 1] o by (simp add: ex_state_heap ex_state_next_id)
  have hc: "block (self ex_closed) = Some 0"
    unfolding ex_closed_def j using h by simp
  have tc: "terminator (heap ex_closed 0) = Some (Terminator 0 0 ''br'' [BlockOp 1])"
    unfolding ex_closed_def j by simp
  have c: "is_terminated (heap ex_closed 0)"
    by (simp add: is_terminated_def tc)
  show ?thesis
    using h o hc c j tc terminators_once [OF h, of 1 "ex_i32 1" 1 2 "ex_i32 1"]
      terminators_once [OF hc, of 2 "ex_i32 1" 1 2 "ex_i32 1"]
    by (simp add: ex_state_heap ex_state_next_id)
qed

subsection \<open>Insertion at the anchor\<close>

text \<open>
  C8. For a builder on block \<open>b\<close> with its anchor within \<open>[0, len(instructions)]\<close>,
  \<open>_insert\<close> puts the instruction at index anchor of the block's sequence and then adds 1
  to the anchor. Consequently, after \<open>position_at_end b\<close>, three constructor calls made one
  after the other, each with arguments that pass the constructor's own check, all return,
  and the block's sequence is then the one before followed by the three returned
  instructions in call order, with the anchor at its end. Whenever three calls made so have
  returned, the sequence is that; and a call whose arguments do not pass the check fails and
  leaves the state as it was.
\<close>

theorem insert_at_anchor_then_advance:
  "(block (self s) = Some b \<and> 0 \<le> anchor (self s) \<and>
      anchor (self s) \<le> int (length (instructions (heap s b))) \<longrightarrow>
      fst (insert_instr instr s) = Inr () \<and>
      instructions (heap (snd (insert_instr instr s)) b)
        = take (nat (anchor (self s))) (instructions (heap s b))
          @ instr # drop (nat (anchor (self s))) (instructions (heap s b)) \<and>
      instructions (heap (snd (insert_instr instr s)) b) ! nat (anchor (self s)) = instr \<and>
      self (snd (insert_instr instr s)) = \<lparr>block = Some b, anchor = anchor (self s) + 1\<rparr>) \<and>
   (accepts g c1 \<and> accepts g c2 \<and> accepts g c3 \<longrightarrow>
      (\<exists>v1 s1 v2 s2 v3 s3.
         run_call g c1 (position_at_end b s) = (Inr v1, s1) \<and>
         run_call g c2 s1 = (Inr v2, s2) \<and>
         run_call g c3 s2 = (Inr v3, s3) \<and>
         instructions (heap s3 b) = instructions (heap s b) @ [v1, v2, v3] \<and>
         self s3 = \<lparr>block = Some b, anchor = int (length (instructions (heap s b))) + 3\<rparr>)) \<and>
   (run_call g c1 (position_at_end b s) = (Inr v1, s1) \<and>
    run_call g c2 s1 = (Inr v2, s2) \<and>
    run_call g c3 s2 = (Inr v3, s3) \<longrightarrow>
      instructions (heap s3 b) = instructions (heap s b) @ [v1, v2, v3] \<and>
      self s3 = \<lparr>block = Some b, anchor = int (length (instructions (heap s b))) + 3\<rparr>) \<and>
   (\<not> accepts g c \<longrightarrow> (\<exists>e. run_call g c s = (Inl e, s)))"
proof -
  have p: "self (position_at_end b s)
             = \<lparr>block = Some b, anchor = int (length (instructions (heap (position_at_end b s) b)))\<rparr>"
    and h: "heap (position_at_end b s) = heap s"
    by (simp_all add: position_at_end_def)
  have three: "instructions (heap t3 b) = instructions (heap s b) @ [w1, w2, w3] \<and>
      self t3 = \<lparr>block = Some b, anchor = int (length (instructions (heap s b))) + 3\<rparr>"
    if c1: "run_call g c1 (position_at_end b s) = (Inr w1, t1)"
      and c2: "run_call g c2 t1 = (Inr w2, t2)"
      and c3: "run_call g c3 t2 = (Inr w3, t3)"
    for w1 t1 w2 t2 w3 t3
  proof -
    note e1 = run_call_at_end [OF c1 p]
    from e1 have p1: "self t1 = \<lparr>block = Some b, anchor = int (length (instructions (heap t1 b)))\<rparr>"
      by simp
    note e2 = run_call_at_end [OF c2 p1]
    from e2 have p2: "self t2 = \<lparr>block = Some b, anchor = int (length (instructions (heap t2 b)))\<rparr>"
      by simp
    note e3 = run_call_at_end [OF c3 p2]
    from e1 e2 e3 h have "instructions (heap t3 b) = instructions (heap s b) @ [w1, w2, w3]"
      by simp
    with e3 show ?thesis by simp
  qed
  have ins: "fst (insert_instr instr s) = Inr () \<and>
      instructions (heap (snd (insert_instr instr s)) b)
        = take (nat (anchor (self s))) (instructions (heap s b))
          @ instr # drop (nat (anchor (self s))) (instructions (heap s b)) \<and>
      instructions (heap (snd (insert_instr instr s)) b) ! nat (anchor (self s)) = instr \<and>
      self (snd (insert_instr instr s)) = \<lparr>block = Some b, anchor = anchor (self s) + 1\<rparr>"
    if a: "block (self s) = Some b \<and> 0 \<le> anchor (self s) \<and>
      anchor (self s) \<le> int (length (instructions (heap s b)))"
  proof -
    have r: "(self s)\<lparr>anchor := a\<rparr> = \<lparr>block = Some b, anchor = a\<rparr>" for a
      using a by (cases "self s") simp
    from a have "fst (insert_instr instr s) = Inr ()"
      by (simp add: insert_instr_def)
    moreover from a have "instructions (heap (snd (insert_instr instr s)) b)
        = take (nat (anchor (self s))) (instructions (heap s b))
          @ instr # drop (nat (anchor (self s))) (instructions (heap s b))"
      by (simp add: insert_instr_def list_insert_in_range)
    moreover from a
    have "instructions (heap (snd (insert_instr instr s)) b) ! nat (anchor (self s)) = instr"
      by (simp add: insert_instr_def list_insert_in_range nth_append min_def nat_le_iff)
    moreover from a
    have "self (snd (insert_instr instr s)) = \<lparr>block = Some b, anchor = anchor (self s) + 1\<rparr>"
      by (simp add: insert_instr_def r)
    ultimately show ?thesis by simp
  qed
  have ret: "\<exists>v1 s1 v2 s2 v3 s3.
         run_call g c1 (position_at_end b s) = (Inr v1, s1) \<and>
         run_call g c2 s1 = (Inr v2, s2) \<and>
         run_call g c3 s2 = (Inr v3, s3) \<and>
         instructions (heap s3 b) = instructions (heap s b) @ [v1, v2, v3] \<and>
         self s3 = \<lparr>block = Some b, anchor = int (length (instructions (heap s b))) + 3\<rparr>"
    if a: "accepts g c1 \<and> accepts g c2 \<and> accepts g c3"
  proof -
    from p have b0: "block (self (position_at_end b s)) = Some b" by simp
    from run_call_returns [OF b0] a obtain w1 t1
      where c1: "run_call g c1 (position_at_end b s) = (Inr w1, t1)" by blast
    from run_call_at_end [OF c1 p] have b1: "block (self t1) = Some b" by simp
    from run_call_returns [OF b1] a obtain w2 t2
      where c2: "run_call g c2 t1 = (Inr w2, t2)" by blast
    from run_call_at_end [OF c1 p]
    have p1: "self t1 = \<lparr>block = Some b, anchor = int (length (instructions (heap t1 b)))\<rparr>"
      by simp
    from run_call_at_end [OF c2 p1] have b2: "block (self t2) = Some b" by simp
    from run_call_returns [OF b2] a obtain w3 t3
      where c3: "run_call g c3 t2 = (Inr w3, t3)" by blast
    from three [OF c1 c2 c3] c1 c2 c3 show ?thesis by blast
  qed
  from ins ret three run_call_refused [of g c s] show ?thesis by blast
qed

theorem insert_at_anchor_then_advance_witness:
  "block (self (position_at_start 0 ex_state2)) = Some 0 \<and>
   0 \<le> anchor (self (position_at_start 0 ex_state2)) \<and>
   anchor (self (position_at_start 0 ex_state2))
     \<le> int (length (instructions (heap (position_at_start 0 ex_state2) 0))) \<and>
   instructions (heap (snd (insert_instr (ex_alloca 9 ''z'') (position_at_start 0 ex_state2))) 0)
     = [ex_alloca 9 ''z'', ex_alloca 0 ''a'', ex_alloca 1 ''b'', ex_alloca 2 ''c''] \<and>
   self (snd (insert_instr (ex_alloca 9 ''z'') (position_at_start 0 ex_state2)))
     = \<lparr>block = Some 0, anchor = 1\<rparr> \<and>
   accepts ex_gt0 ex_add \<and> accepts ex_gt0 ex_trunc \<and> accepts ex_gt0 ex_store \<and>
   run_call ex_gt0 ex_add (position_at_end 0 (position_at_start 0 ex_state2))
     = (Inr (Instruction 4 0 (Some (IntType 32)) ''add'' [ex_i32 1, ex_i32 2] ''x''), ex_s1) \<and>
   run_call ex_gt0 ex_trunc ex_s1
     = (Inr (CastInstr 5 0 ''trunc'' (ex_i32 1) (IntType 8) ''c''), ex_s2) \<and>
   run_call ex_gt0 ex_store ex_s2
     = (Inr (StoreInstr 6 0 (ex_i32 1) (ex_alloca 0 ''a'')), ex_s3) \<and>
   instructions (heap ex_s3 0)
     = [ex_alloca 0 ''a'', ex_alloca 1 ''b'', ex_alloca 2 ''c'',
        Instruction 4 0 (Some (IntType 32)) ''add'' [ex_i32 1, ex_i32 2] ''x'',
        CastInstr 5 0 ''trunc'' (ex_i32 1) (IntType 8) ''c'',
        StoreInstr 6 0 (ex_i32 1) (ex_alloca 0 ''a'')] \<and>
   self ex_s3 = \<lparr>block = Some 0, anchor = 6\<rparr> \<and>
   \<not> accepts ex_gt0 (Add (ex_i32 1) (ex_i64 2) ''x'') \<and>
   fst (run_call ex_gt0 (Add (ex_i32 1) (ex_i64 2) ''x'') ex_state2)
     = Inl (AssertionError ''Operands must be the same type'') \<and>
   snd (run_call ex_gt0 (Add (ex_i32 1) (ex_i64 2) ''x'') ex_state2) = ex_state2"
proof -
  let ?s = "position_at_start 0 ex_state2"
  let ?bad = "Add (ex_i32 1) (ex_i64 2) ''x''"
  note th = insert_at_anchor_then_advance [of ?s 0 "ex_alloca 9 ''z''" ex_gt0 ex_add ex_trunc
      ex_store _ _ _ _ _ _ ?bad]
  have s: "self ?s = \<lparr>block = Some 0, anchor = 0\<rparr>" "heap ?s = heap ex_state2"
    "next_id ?s = 4"
    by (simp_all add: position_at_start_def ex_state2_next_id)
  have e: "self (position_at_end 0 ?s) = \<lparr>block = Some 0, anchor = 3\<rparr>"
    "heap (position_at_end 0 ?s) = heap ex_state2" "next_id (position_at_end 0 ?s) = 4"
    by (simp_all add: position_at_end_def s ex_state2_heap0)
  have a: "accepts ex_gt0 ex_add" "accepts ex_gt0 ex_trunc" "accepts ex_gt0 ex_store"
    by (simp_all add: ex_add_def ex_trunc_def ex_store_def ex_i32_def)
  have na: "\<not> accepts ex_gt0 ?bad" by (simp add: ex_i32_def ex_i64_def)
  from th a obtain v1 s1 v2 s2 v3 s3
    where c1: "run_call ex_gt0 ex_add (position_at_end 0 ?s) = (Inr v1, s1)"
      and c2: "run_call ex_gt0 ex_trunc s1 = (Inr v2, s2)"
      and c3: "run_call ex_gt0 ex_store s2 = (Inr v3, s3)"
      and app: "instructions (heap s3 0) = instructions (heap ?s 0) @ [v1, v2, v3]"
      and cur: "self s3 = \<lparr>block = Some 0, anchor = int (length (instructions (heap ?s 0))) + 3\<rparr>"
    by blast
  have s1: "s1 = ex_s1" by (simp add: ex_s1_def c1)
  from run_call_Inr [OF c1]
  have n1: "next_id s1 = 5" "block (self s1) = Some 0" "parent (heap s1 0) = 0"
    by (auto simp: e ex_state2_heap0)
  have s2: "s2 = ex_s2" using c2 by (simp add: ex_s2_def s1 [symmetric])
  from run_call_Inr [OF c2]
  have n2: "next_id s2 = 6" "block (self s2) = Some 0" "parent (heap s2 0) = 0"
    by (auto simp: n1)
  have s3: "s3 = ex_s3" using c3 by (simp add: ex_s3_def s2 [symmetric])
  have t: "value_type (ex_i32 1) = value_type (ex_i32 2)"
    "value_type (ex_i32 1) = Some (IntType 32)"
    by (simp_all add: ex_i32_def)
  have "fst (run_call ex_gt0 ex_add (position_at_end 0 ?s))
          = Inr (Instruction 4 0 (Some (IntType 32)) ''add'' [ex_i32 1, ex_i32 2] ''x'')"
    using t(1)
    by (simp add: ex_add_def add_def binop_def builder_function_def emit_ok e ex_state2_heap0 t(2))
  with c1 have v1: "v1 = Instruction 4 0 (Some (IntType 32)) ''add'' [ex_i32 1, ex_i32 2] ''x''"
    by simp
  have "fst (run_call ex_gt0 ex_trunc s1) = Inr (CastInstr 5 0 ''trunc'' (ex_i32 1) (IntType 8) ''c'')"
    by (simp add: ex_trunc_def trunc_def castop_def builder_function_def emit_ok n1)
  with c2 have v2: "v2 = CastInstr 5 0 ''trunc'' (ex_i32 1) (IntType 8) ''c''"
    by simp
  have "fst (run_call ex_gt0 ex_store s2) = Inr (StoreInstr 6 0 (ex_i32 1) (ex_alloca 0 ''a''))"
    by (simp add: ex_store_def store_def builder_function_def emit_ok n2)
  with c3 have v3: "v3 = StoreInstr 6 0 (ex_i32 1) (ex_alloca 0 ''a'')"
    by simp
  from th na obtain err where bad: "run_call ex_gt0 ?bad ?s = (Inl err, ?s)"
    by blast
  have bad2: "run_call ex_gt0 ?bad ex_state2
                = (Inl (AssertionError ''Operands must be the same type''), ex_state2)"
    by (simp add: add_def binop_def ex_i32_def ex_i64_def)
  have i: "instructions (heap (snd (insert_instr (ex_alloca 9 ''z'') ?s)) 0)
             = [ex_alloca 9 ''z'', ex_alloca 0 ''a'', ex_alloca 1 ''b'', ex_alloca 2 ''c'']"
    "self (snd (insert_instr (ex_alloca 9 ''z'') ?s)) = \<lparr>block = Some 0, anchor = 1\<rparr>"
    using th by (simp_all add: s ex_state2_heap0)
  show ?thesis
    using a na i c1 c2 c3 app cur bad2
    by (simp add: s s1 s2 s3 v1 v2 v3 ex_state2_heap0)
qed

subsection \<open>The count of an alloca\<close>

text \<open>
  C9. For a builder with a current block: \<open>alloca\<close> with a Python number \<open>n > 0\<close> as count
  stores the constant \<open>n\<close> of type \<open>IntType(32)\<close> as the count of the instruction; with no
  count it stores none; with a value as count (one for which \<open>count > 0\<close> holds) it stores
  that value as given; and with a number \<open>n \<le> 0\<close> it fails on its assertion (the failure
  the spec calls InvalidArgumentError) and returns the state it was given.
\<close>

theorem alloca_count:
  assumes "block (self s) = Some b"
  shows "(0 < n \<longrightarrow>
            fst (alloca value_gt0 typ (CountInt n) name s)
              = Inr (AllocaInstr (next_id s) (parent (heap s b)) typ
                       (Some (Constant (IntType 32) n)) name)) \<and>
         fst (alloca value_gt0 typ CountNone name s)
           = Inr (AllocaInstr (next_id s) (parent (heap s b)) typ None name) \<and>
         (value_gt0 v = Inr True \<longrightarrow>
            fst (alloca value_gt0 typ (CountValue v) name s)
              = Inr (AllocaInstr (next_id s) (parent (heap s b)) typ (Some v) name)) \<and>
         (n \<le> 0 \<longrightarrow>
            alloca value_gt0 typ (CountInt n) name s = (Inl (AssertionError ''''), s))"
  using assms
  by (simp add: alloca_def builder_function_def emit_ok Let_def)

theorem alloca_count_witness:
  "block (self ex_state) = Some 0 \<and> (0::int) < 5 \<and> ex_gt0 (ex_i64 7) = Inr True \<and>
   (-1::int) \<le> 0 \<and>
   fst (alloca ex_gt0 (IntType 8) (CountInt 5) ''p'' ex_state)
     = Inr (AllocaInstr 0 0 (IntType 8) (Some (Constant (IntType 32) 5)) ''p'') \<and>
   fst (alloca ex_gt0 (IntType 8) CountNone ''p'' ex_state)
     = Inr (AllocaInstr 0 0 (IntType 8) None ''p'') \<and>
   fst (alloca ex_gt0 (IntType 8) (CountValue (ex_i64 7)) ''p'' ex_state)
     = Inr (AllocaInstr 0 0 (IntType 8) (Some (ex_i64 7)) ''p'') \<and>
   alloca ex_gt0 (IntType 8) (CountInt (-1)) ''p'' ex_state
     = (Inl (AssertionError ''''), ex_state) \<and>
   alloca ex_gt0 (IntType 8) (CountInt 0) ''p'' ex_state
     = (Inl (AssertionError ''''), ex_state)"
proof -
  have h: "block (self ex_state) = Some 0" by (rule ex_state_block)
  have g: "ex_gt0 (ex_i64 7) = Inr True" by (simp add: ex_gt0_def)
  show ?thesis
    using h g alloca_count [OF h, of 5 ex_gt0 "IntType 8" "''p''" "ex_i64 7"]
      alloca_count [OF h, of "-1" ex_gt0 "IntType 8" "''p''" "ex_i64 7"]
      alloca_count [OF h, of 0 ex_gt0 "IntType 8" "''p''" "ex_i64 7"]
    by (simp add: ex_state_heap ex_state_next_id)
qed

subsection \<open>Integer comparisons on an unknown symbol\<close>

text \<open>
  C10. For a string that is none of the six symbols, \<open>icmp_signed\<close> and \<open>icmp_unsigned\<close>
  fail on the lookup in the table (KeyError) and return the state they were given, so no
  instruction is inserted; \<open>fcmp_ordered\<close> and \<open>fcmp_unordered\<close>, on a builder with a
  current block, instead make an instruction whose predicate is that string.
\<close>

theorem icmp_unrecognized_cmpop:
  assumes "cmpop \<notin> {''>'', ''<'', ''=='', ''!='', ''>='', ''<=''}"
  shows "icmp_signed cmpop lhs rhs name s = (Inl (KeyError cmpop), s) \<and>
         icmp_unsigned cmpop lhs rhs name s = (Inl (KeyError cmpop), s) \<and>
         (\<forall>b. block (self s) = Some b \<longrightarrow>
            fst (fcmp_ordered cmpop lhs rhs name s)
              = Inr (FCMPInstr (next_id s) (parent (heap s b)) cmpop lhs rhs name) \<and>
            fst (fcmp_unordered cmpop lhs rhs name s)
              = Inr (FCMPInstr (next_id s) (parent (heap s b)) cmpop lhs rhs name))"
  using CMP_MAP_None [OF assms]
  by (simp add: icmp_signed_def icmp_unsigned_def fcmp_ordered_def fcmp_unordered_def
      builder_function_def emit_ok Let_def)

theorem icmp_unrecognized_cmpop_witness:
  "''uno'' \<notin> {''>'', ''<'', ''=='', ''!='', ''>='', ''<=''} \<and>
   block (self ex_state) = Some 0 \<and>
   icmp_signed ''uno'' (ex_i32 1) (ex_i32 2) ''c'' ex_state = (Inl (KeyError ''uno''), ex_state) \<and>
   icmp_unsigned ''uno'' (ex_i32 1) (ex_i32 2) ''c'' ex_state = (Inl (KeyError ''uno''), ex_state) \<and>
   instructions (heap (snd (icmp_signed ''uno'' (ex_i32 1) (ex_i32 2) ''c'' ex_state)) 0) = [] \<and>
   fst (fcmp_ordered ''uno'' (ex_i32 1) (ex_i32 2) ''c'' ex_state)
     = Inr (FCMPInstr 0 0 ''uno'' (ex_i32 1) (ex_i32 2) ''c'')"
proof -
  have h: "''uno'' \<notin> {''>'', ''<'', ''=='', ''!='', ''>='', ''<=''}" by simp
  show ?thesis
    using h icmp_unrecognized_cmpop [OF h, of "ex_i32 1" "ex_i32 2" "''c''" ex_state]
    by (simp add: ex_state_block ex_state_parent ex_state_next_id) (simp add: ex_state_heap)
qed

end
